theory Spec2Isabelle
  imports Complex_Main
begin

section \<open>Column sets (pkg/sql/opt/colset.go)\<close>

text \<open>
  \<open>opt.ColumnID\<close> is an \<open>int32\<close>; \<open>ColSet\<close> converts it to \<open>int\<close> before every call
  into \<open>util.FastIntSet\<close>.  No arithmetic is done on column ids, so they are integers here.
\<close>

type_synonym ColumnID = int

text \<open>
  Modelled from the spec: \<open>util.FastIntSet\<close> (pkg/util/fast_int_set.go is not part of the
  sources at hand).  The spec describes a set of integers without duplicates whose
  iteration order is ascending, with add, contains, empty, len, copy, union, intersection
  and difference.  The representation is the ascending list of the members.
\<close>

type_synonym FastIntSet = "int list"

fun FastIntSet_Add :: "int \<Rightarrow> FastIntSet \<Rightarrow> FastIntSet" where
  "FastIntSet_Add i [] = [i]"
| "FastIntSet_Add i (x # xs) =
     (if i < x then i # x # xs else if i = x then x # xs else x # FastIntSet_Add i xs)"

fun FastIntSet_Remove :: "int \<Rightarrow> FastIntSet \<Rightarrow> FastIntSet" where
  "FastIntSet_Remove i [] = []"
| "FastIntSet_Remove i (x # xs) = (if i = x then FastIntSet_Remove i xs else x # FastIntSet_Remove i xs)"

fun FastIntSet_Contains :: "FastIntSet \<Rightarrow> int \<Rightarrow> bool" where
  "FastIntSet_Contains [] i = False"
| "FastIntSet_Contains (x # xs) i = (x = i \<or> FastIntSet_Contains xs i)"

definition FastIntSet_Empty :: "FastIntSet \<Rightarrow> bool" where
  "FastIntSet_Empty s = (s = [])"

definition FastIntSet_Len :: "FastIntSet \<Rightarrow> nat" where
  "FastIntSet_Len s = length s"

definition FastIntSet_Copy :: "FastIntSet \<Rightarrow> FastIntSet" where
  "FastIntSet_Copy s = s"



definition FastIntSet_IntersectionWith :: "FastIntSet \<Rightarrow> FastIntSet \<Rightarrow> FastIntSet" where
  "FastIntSet_IntersectionWith s rhs = filter (FastIntSet_Contains rhs) s"

definition FastIntSet_Intersection :: "FastIntSet \<Rightarrow> FastIntSet \<Rightarrow> FastIntSet" where
  "FastIntSet_Intersection s rhs = FastIntSet_IntersectionWith (FastIntSet_Copy s) rhs"

definition FastIntSet_DifferenceWith :: "FastIntSet \<Rightarrow> FastIntSet \<Rightarrow> FastIntSet" where
  "FastIntSet_DifferenceWith s rhs = filter (\<lambda>i. \<not> FastIntSet_Contains rhs i) s"

definition FastIntSet_Difference :: "FastIntSet \<Rightarrow> FastIntSet \<Rightarrow> FastIntSet" where
  "FastIntSet_Difference s rhs = FastIntSet_DifferenceWith (FastIntSet_Copy s) rhs"

text \<open>
  \<open>type ColSet struct { set util.FastIntSet }\<close>.  Methods with a pointer receiver
  (\<open>Add\<close>, \<open>Remove\<close>, \<open>UnionWith\<close>, \<open>IntersectionWith\<close>, \<open>DifferenceWith\<close>) return the
  updated receiver; methods with a value receiver return their result only.
\<close>

datatype ColSet = ColSet (fastset: FastIntSet)

definition Add :: "ColSet \<Rightarrow> ColumnID \<Rightarrow> ColSet" where
  "Add s col = ColSet (FastIntSet_Add col (fastset s))"

definition Remove :: "ColSet \<Rightarrow> ColumnID \<Rightarrow> ColSet" where
  "Remove s col = ColSet (FastIntSet_Remove col (fastset s))"

definition MakeColSet :: "ColumnID list \<Rightarrow> ColSet" where
  "MakeColSet vals = foldl Add (ColSet []) vals"

definition Contains :: "ColSet \<Rightarrow> ColumnID \<Rightarrow> bool" where
  "Contains s col = FastIntSet_Contains (fastset s) col"

definition Empty :: "ColSet \<Rightarrow> bool" where
  "Empty s = FastIntSet_Empty (fastset s)"

definition Len :: "ColSet \<Rightarrow> nat" where
  "Len s = FastIntSet_Len (fastset s)"




definition IntersectionWith :: "ColSet \<Rightarrow> ColSet \<Rightarrow> ColSet" where
  "IntersectionWith s rhs = ColSet (FastIntSet_IntersectionWith (fastset s) (fastset rhs))"

definition Intersection :: "ColSet \<Rightarrow> ColSet \<Rightarrow> ColSet" where
  "Intersection s rhs = ColSet (FastIntSet_Intersection (fastset s) (fastset rhs))"

definition DifferenceWith :: "ColSet \<Rightarrow> ColSet \<Rightarrow> ColSet" where
  "DifferenceWith s rhs = ColSet (FastIntSet_DifferenceWith (fastset s) (fastset rhs))"

definition Difference :: "ColSet \<Rightarrow> ColSet \<Rightarrow> ColSet" where
  "Difference s rhs = ColSet (FastIntSet_Difference (fastset s) (fastset rhs))"

section \<open>Errors\<close>

text \<open>A Go panic is a value: every function that can panic returns \<open>error + 'a\<close>.\<close>

datatype error =
    AssertionFailed string
  | IndexOutOfRange
  | TypeAssertionFailed
  | Unimplemented string
  | HelperError string

section \<open>Expressions\<close>

text \<open>
  Scalar expressions as the optimizer's rules see them: a variable reference, the four
  constant value operators (\<open>ConstOp\<close>, \<open>TrueOp\<close>, \<open>FalseOp\<close>, \<open>NullOp\<close>), and any other
  operator with its children.
\<close>

datatype Operator =
    AndOp | OrOp | NotOp | EqOp | NeOp | LeOp | LtOp | GeOp | GtOp
  | IsOp | IsNotOp | InOp | NotInOp | PlusOp | MinusOp | MultOp
  | TupleOp | FunctionOp string | SubqueryOp | OtherOp string

datatype Expr =
    VariableExpr ColumnID
  | ConstExpr int
  | TrueExpr
  | FalseExpr
  | NullExpr
  | OpExpr Operator "Expr list"

record ProjectionsItem =
  Element :: Expr
  Col :: ColumnID

record AggregationsItem =
  Agg :: Expr
  AggCol :: ColumnID

record Statistics =
  RowCount :: real

record props_Relational =
  Stats :: Statistics
  OutputCols :: ColSet

record OrderingColumnChoice =
  Group :: ColSet
  Descending :: bool

record OrderingChoice =
  Optional :: ColSet
  Columns :: "OrderingColumnChoice list"

record Required =
  Ordering :: OrderingChoice

text \<open>\<open>opt.Ordering\<close> is a list of signed column ids.\<close>

type_synonym Ordering = "int list"

type_synonym TableID = nat

record ScanFlags =
  ForceIndex :: bool
  Flags_Index :: int

text \<open>
  Of \<open>constraint.Constraint\<close> (not part of the sources at hand) the cost model reads only
  the result of \<open>IsUnconstrained()\<close>.
\<close>

record Constraint =
  IsUnconstrained :: bool

record ScanPrivate =
  Scan_Table :: TableID
  Scan_Index :: int
  Scan_Cols :: ColSet
  Scan_Constraint :: "Constraint option"
  Scan_Flags :: ScanFlags

record JoinFlags =
  DisallowHashJoin :: bool

record JoinPrivate =
  Join_Flags :: JoinFlags

record IndexJoinPrivate =
  IndexJoin_Table :: TableID
  IndexJoin_Cols :: ColSet

record LookupJoinPrivate =
  LookupJoin_Table :: TableID
  LookupJoin_Index :: int
  LookupJoin_Cols :: ColSet

record ZigzagJoinPrivate =
  LeftTable :: TableID
  LeftIndex :: int
  RightTable :: TableID
  RightIndex :: int
  Zigzag_Cols :: ColSet

record GroupingPrivate =
  GroupingCols :: ColSet
  Grouping_Ordering :: OrderingChoice

datatype JoinOp =
    InnerJoinOp | LeftJoinOp | RightJoinOp | FullJoinOp | SemiJoinOp | AntiJoinOp
  | InnerJoinApplyOp | LeftJoinApplyOp | RightJoinApplyOp | FullJoinApplyOp
  | SemiJoinApplyOp | AntiJoinApplyOp

datatype SetOp = UnionOp | IntersectOp | ExceptOp | UnionAllOp | IntersectAllOp | ExceptAllOp

datatype GroupingOp = GroupByOp | ScalarGroupByOp | DistinctOnOp

text \<open>
  Relational expressions.  Each constructor is one of the \<open>memo\<close> expression structs the
  code names; its operator (\<open>Op()\<close>) is fixed by the constructor, and by the extra tag
  for the join, set and grouping families that share one cost formula.  The last field is
  the expression's logical properties (\<open>Relational()\<close>).  \<open>OtherExpr\<close> stands for every
  operator the switch in \<open>ComputeCost\<close> has no case for.
\<close>

datatype RelExpr =
    SortExpr RelExpr props_Relational
  | ScanExpr ScanPrivate props_Relational
  | VirtualScanExpr props_Relational
  | SelectExpr RelExpr "Expr list" props_Relational
  | ProjectExpr RelExpr "ProjectionsItem list" ColSet props_Relational
  | ValuesExpr "Expr list" "ColumnID list" props_Relational
  | JoinExpr JoinOp RelExpr RelExpr "Expr list" JoinPrivate props_Relational
  | MergeJoinExpr RelExpr RelExpr props_Relational
  | IndexJoinExpr RelExpr IndexJoinPrivate props_Relational
  | LookupJoinExpr RelExpr "Expr list" LookupJoinPrivate props_Relational
  | ZigzagJoinExpr ZigzagJoinPrivate props_Relational
  | SetExpr SetOp RelExpr RelExpr props_Relational
  | GroupingExpr GroupingOp RelExpr "AggregationsItem list" GroupingPrivate props_Relational
  | LimitExpr RelExpr props_Relational
  | OffsetExpr RelExpr props_Relational
  | OrdinalityExpr RelExpr props_Relational
  | ProjectSetExpr RelExpr props_Relational
  | ExplainExpr RelExpr props_Relational
  | OtherExpr string props_Relational

fun Relational :: "RelExpr \<Rightarrow> props_Relational" where
  "Relational (SortExpr _ r) = r"
| "Relational (ScanExpr _ r) = r"
| "Relational (VirtualScanExpr r) = r"
| "Relational (SelectExpr _ _ r) = r"
| "Relational (ProjectExpr _ _ _ r) = r"
| "Relational (ValuesExpr _ _ r) = r"
| "Relational (JoinExpr _ _ _ _ _ r) = r"
| "Relational (MergeJoinExpr _ _ r) = r"
| "Relational (IndexJoinExpr _ _ r) = r"
| "Relational (LookupJoinExpr _ _ _ r) = r"
| "Relational (ZigzagJoinExpr _ r) = r"
| "Relational (SetExpr _ _ _ r) = r"
| "Relational (GroupingExpr _ _ _ _ r) = r"
| "Relational (LimitExpr _ r) = r"
| "Relational (OffsetExpr _ r) = r"
| "Relational (OrdinalityExpr _ r) = r"
| "Relational (ProjectSetExpr _ r) = r"
| "Relational (ExplainExpr _ r) = r"
| "Relational (OtherExpr _ r) = r"

definition rowCountOf :: "RelExpr \<Rightarrow> real" where
  "rowCountOf e = RowCount (Stats (Relational e))"

section \<open>The cost model (pkg/sql/opt/xform/coster.go)\<close>

subsection \<open>Zones and localities\<close>

text \<open>
  \<open>cat.Constraint\<close>, \<open>cat.ConstraintSet\<close>, \<open>cat.Zone\<close> and \<open>roachpb.Locality\<close> are
  interfaces and structs declared outside the sources at hand; the records hold what the
  accessors used by \<open>localityMatchScore\<close> return.
\<close>

record ZoneConstraint =
  IsRequired :: bool
  GetKey :: string
  GetValue :: string

type_synonym ConstraintSet = "ZoneConstraint list"

record Zone =
  ReplicaConstraints :: "ConstraintSet list"
  LeasePreferences :: "ConstraintSet list"

record Tier =
  Key :: string
  Value :: string

record Locality =
  Tiers :: "Tier list"

record Index =
  ColumnCount :: nat
  IndexZone :: Zone

text \<open>
  The metadata of the memo: \<open>md.Table(tabID).Index(idxOrd)\<close> and
  \<open>md.TableMeta(tabID).IndexColumns(idxOrd)\<close>.
\<close>

record Metadata =
  TableIndex :: "TableID \<Rightarrow> int \<Rightarrow> Index"
  IndexColumns :: "TableID \<Rightarrow> int \<Rightarrow> ColSet"

record coster =
  mem :: Metadata
  locality :: Locality
  perturbation :: real

text \<open>
  What the cost model takes from packages that are not part of the sources at hand:
  \<open>memo.MaxCost\<close>, \<open>ordering.ScanIsReverse\<close> and \<open>ordering.StreamingGroupingColOrdering\<close>.
  They are parameters of the model.
\<close>

record externals =
  MaxCost :: real
  ScanIsReverse :: "ScanPrivate \<Rightarrow> OrderingChoice \<Rightarrow> bool"
  StreamingGroupingColOrdering :: "GroupingPrivate \<Rightarrow> OrderingChoice \<Rightarrow> Ordering"

text \<open>
  \<open>memo.Cost\<close> is a \<open>float64\<close>.  Costs and row counts are real numbers here: rounding is
  not modelled.  Modelled from the spec: \<open>Cost.Less\<close> (package memo is not part of the
  sources at hand) is the ordering of costs.
\<close>

definition Cost_Less :: "real \<Rightarrow> real \<Rightarrow> bool" where
  "Cost_Less c other = (c < other)"

definition cpuCostFactor :: real where
  "cpuCostFactor = 1 / 100"

definition seqIOCostFactor :: real where
  "seqIOCostFactor = 1"

definition randIOCostFactor :: real where
  "randIOCostFactor = 4"

definition lookupJoinRetrieveRowCost :: real where
  "lookupJoinRetrieveRowCost = 2 * seqIOCostFactor"

definition latencyCostFactor :: real where
  "latencyCostFactor = cpuCostFactor"

definition hugeCost :: real where
  "hugeCost = 10 ^ 100"

subsection \<open>localityMatchScore\<close>

text \<open>The closure \<open>matchTier\<close>; the loop carries \<open>foundNoMatch\<close>.\<close>

fun matchTier_loop :: "Tier \<Rightarrow> ConstraintSet \<Rightarrow> bool \<Rightarrow> int" where
  "matchTier_loop tier [] foundNoMatch = (if foundNoMatch then - 1 else 0)"
| "matchTier_loop tier (con # rest) foundNoMatch =
     (if GetKey con \<noteq> Key tier then matchTier_loop tier rest foundNoMatch
      else if GetValue con = Value tier then (if \<not> IsRequired con then - 1 else 1)
      else if IsRequired con then matchTier_loop tier rest True
      else matchTier_loop tier rest foundNoMatch)"

definition matchTier :: "Tier \<Rightarrow> ConstraintSet \<Rightarrow> int" where
  "matchTier tier cs = matchTier_loop tier cs False"

text \<open>
  The closure \<open>matchConstraints\<close>: the loop over \<open>locality.Tiers\<close> carries the index \<open>i\<close>
  and \<open>matchCount\<close>.
\<close>

fun matchConstraints_loop :: "ConstraintSet \<Rightarrow> Tier list \<Rightarrow> nat \<Rightarrow> int \<Rightarrow> int" where
  "matchConstraints_loop cs [] i matchCount = matchCount"
| "matchConstraints_loop cs (tier # tiers) i matchCount =
     (let r = matchTier tier cs in
      if r = 1 then matchConstraints_loop cs tiers (i + 1) (int i + 1)
      else if r = - 1 then matchCount
      else matchConstraints_loop cs tiers (i + 1) matchCount)"

definition matchConstraints :: "Locality \<Rightarrow> ConstraintSet \<Rightarrow> int" where
  "matchConstraints loc cs = matchConstraints_loop cs (Tiers loc) 0 0"

definition MaxInt :: int where
  "MaxInt = 2 ^ 63 - 1"

fun minCount_loop :: "Locality \<Rightarrow> ConstraintSet list \<Rightarrow> int \<Rightarrow> int" where
  "minCount_loop loc [] minCount = minCount"
| "minCount_loop loc (rc # rcs) minCount =
     (let matchCount = matchConstraints loc rc in
      minCount_loop loc rcs (if matchCount < minCount then matchCount else minCount))"

text \<open>
  A \<open>float64\<close> division.  Go does not panic on a zero divisor: the quotient is NaN or an
  infinity, and every later sum, product and quotient with it is again not a number one
  can compare.  \<open>None\<close> stands for these results.
\<close>

definition float64_div :: "real \<Rightarrow> real \<Rightarrow> real option" where
  "float64_div x y = (if y = 0 then None else Some (x / y))"

definition localityMatchScore :: "Zone \<Rightarrow> Locality \<Rightarrow> real option" where
  "localityMatchScore zone loc =
     (if length (ReplicaConstraints zone) = 0 \<and> length (LeasePreferences zone) = 0 then Some 0
      else
        let constraintScore =
              (if length (ReplicaConstraints zone) \<noteq> 0
               then float64_div (real_of_int (minCount_loop loc (ReplicaConstraints zone) MaxInt))
                      (real (length (Tiers loc)))
               else Some 0)
        in case LeasePreferences zone of
             [] \<Rightarrow> constraintScore
           | lp # _ \<Rightarrow>
               (let leaseScore = float64_div (real_of_int (matchConstraints loc lp))
                                   (real (length (Tiers loc)))
                in case (constraintScore, leaseScore) of
                     (Some cs, Some ls) \<Rightarrow> Some ((cs * 2 + ls) / 3)
                   | _ \<Rightarrow> None))"

subsection \<open>Per-row costs\<close>

text \<open>
  \<open>rowSortCost\<close>: the loop \<open>for i, c := 0, cpuCostFactor; i < numKeyCols; i, c = i+1, c*eqProb\<close>
  run for the remaining number of iterations.
\<close>

fun rowSortCost_loop :: "nat \<Rightarrow> real \<Rightarrow> real \<Rightarrow> real" where
  "rowSortCost_loop 0 c cost = cost"
| "rowSortCost_loop (Suc n) c cost = rowSortCost_loop n (c * (1 / 10)) (cost + c)"

definition rowSortCost :: "nat \<Rightarrow> real" where
  "rowSortCost numKeyCols = rowSortCost_loop numKeyCols cpuCostFactor cpuCostFactor"

text \<open>
  \<open>rowScanCost\<close> calls \<open>localityMatchScore\<close> only when the locality has a tier; there the
  score is a number (lemma \<open>localityMatchScore_defined\<close> below).
\<close>

definition rowScanCost :: "coster \<Rightarrow> TableID \<Rightarrow> int \<Rightarrow> nat \<Rightarrow> real" where
  "rowScanCost c tabID idxOrd numScannedCols =
     (let idx = TableIndex (mem c) tabID idxOrd;
          numCols = ColumnCount idx;
          costFactor =
            (if length (Tiers (locality c)) \<noteq> 0
             then (let adjustment = 1 - the (localityMatchScore (IndexZone idx) (locality c))
                   in cpuCostFactor + latencyCostFactor * adjustment)
             else cpuCostFactor)
      in real (numCols + numScannedCols) * costFactor)"

subsection \<open>Per-operator costs\<close>

definition computeSortCost :: "coster \<Rightarrow> RelExpr \<Rightarrow> Required \<Rightarrow> real" where
  "computeSortCost c srt required =
     (let rowCount = rowCountOf srt;
          perRowCost = rowSortCost (length (Columns (Ordering required)));
          cost = rowCount * perRowCost
      in if rowCount > 1 then cost * (1 + log 2 rowCount) else cost)"

definition computeScanCost :: "externals \<Rightarrow> coster \<Rightarrow> ScanPrivate \<Rightarrow> props_Relational \<Rightarrow> Required \<Rightarrow> real" where
  "computeScanCost X c scan rel required =
     (if ForceIndex (Scan_Flags scan) \<and> Flags_Index (Scan_Flags scan) \<noteq> Scan_Index scan
      then hugeCost
      else
        let rowCount = RowCount (Stats rel);
            perRowCost0 = rowScanCost c (Scan_Table scan) (Scan_Index scan) (Len (Scan_Cols scan));
            perRowCost =
              (if ScanIsReverse X scan (Ordering required) \<and> rowCount > 1
               then perRowCost0 + log 2 rowCount * cpuCostFactor
               else perRowCost0);
            preferConstrainedScanCost =
              (case Scan_Constraint scan of
                 None \<Rightarrow> cpuCostFactor
               | Some con \<Rightarrow> (if IsUnconstrained con then cpuCostFactor else 0))
        in rowCount * (seqIOCostFactor + perRowCost) + preferConstrainedScanCost)"

definition computeVirtualScanCost :: "props_Relational \<Rightarrow> real" where
  "computeVirtualScanCost rel = RowCount (Stats rel) * cpuCostFactor"

definition computeSelectCost :: "RelExpr \<Rightarrow> real" where
  "computeSelectCost input = rowCountOf input * cpuCostFactor"

definition computeProjectCost :: "ProjectionsItem list \<Rightarrow> props_Relational \<Rightarrow> real" where
  "computeProjectCost projections rel =
     (let rowCount = RowCount (Stats rel);
          synthesizedColCount = length projections;
          cost = rowCount * real synthesizedColCount * cpuCostFactor
      in cost + rowCount * cpuCostFactor)"

definition computeValuesCost :: "props_Relational \<Rightarrow> real" where
  "computeValuesCost rel = RowCount (Stats rel) * cpuCostFactor"

definition computeHashJoinCost :: "RelExpr \<Rightarrow> RelExpr \<Rightarrow> JoinPrivate \<Rightarrow> props_Relational \<Rightarrow> real" where
  "computeHashJoinCost left right private rel =
     (if DisallowHashJoin (Join_Flags private) then hugeCost
      else
        let leftRowCount = rowCountOf left;
            rightRowCount = rowCountOf right;
            cost = (125 / 100 * leftRowCount + 175 / 100 * rightRowCount) * cpuCostFactor
        in cost + RowCount (Stats rel) * cpuCostFactor)"

definition computeMergeJoinCost :: "RelExpr \<Rightarrow> RelExpr \<Rightarrow> props_Relational \<Rightarrow> real" where
  "computeMergeJoinCost left right rel =
     (let leftRowCount = rowCountOf left;
          rightRowCount = rowCountOf right;
          cost = (leftRowCount + rightRowCount) * cpuCostFactor
      in cost + RowCount (Stats rel) * cpuCostFactor)"

text \<open>\<open>cat.PrimaryIndex\<close> is the index ordinal 0.\<close>

definition computeIndexJoinCost :: "coster \<Rightarrow> RelExpr \<Rightarrow> IndexJoinPrivate \<Rightarrow> real" where
  "computeIndexJoinCost c input join =
     (let leftRowCount = rowCountOf input;
          perRowCost = cpuCostFactor + randIOCostFactor +
            rowScanCost c (IndexJoin_Table join) 0 (Len (IndexJoin_Cols join))
      in leftRowCount * perRowCost)"

definition computeLookupJoinCost ::
  "coster \<Rightarrow> RelExpr \<Rightarrow> Expr list \<Rightarrow> LookupJoinPrivate \<Rightarrow> props_Relational \<Rightarrow> real" where
  "computeLookupJoinCost c input on join rel =
     (let leftRowCount = rowCountOf input;
          perLookupCost = randIOCostFactor;
          cost = leftRowCount * perLookupCost;
          numLookupCols = Len (Difference (LookupJoin_Cols join) (OutputCols (Relational input)));
          perRowCost0 = lookupJoinRetrieveRowCost +
            rowScanCost c (LookupJoin_Table join) (LookupJoin_Index join) numLookupCols;
          perRowCost = perRowCost0 + cpuCostFactor * real (length on)
      in cost + RowCount (Stats rel) * perRowCost)"

definition computeZigzagJoinCost :: "coster \<Rightarrow> ZigzagJoinPrivate \<Rightarrow> props_Relational \<Rightarrow> real" where
  "computeZigzagJoinCost c join rel =
     (let rowCount = RowCount (Stats rel);
          md = mem c;
          leftCols = IntersectionWith (IndexColumns md (LeftTable join) (LeftIndex join)) (Zigzag_Cols join);
          rightCols0 = IntersectionWith (IndexColumns md (RightTable join) (RightIndex join)) (Zigzag_Cols join);
          rightCols = DifferenceWith rightCols0 leftCols;
          scanCost = rowScanCost c (LeftTable join) (LeftIndex join) (Len leftCols)
                   + rowScanCost c (RightTable join) (RightIndex join) (Len rightCols)
      in rowCount * (2 * (cpuCostFactor + seqIOCostFactor) + scanCost))"

definition computeSetCost :: "SetOp \<Rightarrow> RelExpr \<Rightarrow> RelExpr \<Rightarrow> props_Relational \<Rightarrow> real" where
  "computeSetCost op left right rel =
     (let cost = RowCount (Stats rel) * cpuCostFactor
      in if op \<noteq> UnionAllOp
         then cost + (rowCountOf left + rowCountOf right) * cpuCostFactor
         else cost)"

definition computeGroupingCost ::
  "externals \<Rightarrow> RelExpr \<Rightarrow> AggregationsItem list \<Rightarrow> GroupingPrivate \<Rightarrow> props_Relational \<Rightarrow> Required \<Rightarrow> real" where
  "computeGroupingCost X input aggs private rel required =
     (let cost0 = RowCount (Stats rel) * cpuCostFactor;
          inputRowCount = rowCountOf input;
          aggsCount = length aggs;
          groupingColCount = Len (GroupingCols private);
          cost = cost0 + inputRowCount * real (aggsCount + groupingColCount) * cpuCostFactor
      in if groupingColCount > 0
         then (let hashCost0 = inputRowCount * cpuCostFactor;
                   n = length (StreamingGroupingColOrdering X private (Ordering required));
                   hashCost = hashCost0 * (1 - real n / real groupingColCount)
               in cost + hashCost)
         else cost)"

definition computeLimitCost :: "props_Relational \<Rightarrow> real" where
  "computeLimitCost rel = RowCount (Stats rel) * cpuCostFactor"

definition computeOffsetCost :: "props_Relational \<Rightarrow> real" where
  "computeOffsetCost rel = RowCount (Stats rel) * cpuCostFactor"

definition computeOrdinalityCost :: "props_Relational \<Rightarrow> real" where
  "computeOrdinalityCost rel = RowCount (Stats rel) * cpuCostFactor"

definition computeProjectSetCost :: "props_Relational \<Rightarrow> real" where
  "computeProjectSetCost rel = RowCount (Stats rel) * cpuCostFactor"

subsection \<open>ComputeCost\<close>

text \<open>The \<open>switch candidate.Op()\<close>; an operator without a case leaves \<open>cost\<close> at zero.\<close>

fun ComputeCost_switch :: "externals \<Rightarrow> coster \<Rightarrow> RelExpr \<Rightarrow> Required \<Rightarrow> real" where
  "ComputeCost_switch X c (SortExpr i r) required = computeSortCost c (SortExpr i r) required"
| "ComputeCost_switch X c (ScanExpr p r) required = computeScanCost X c p r required"
| "ComputeCost_switch X c (VirtualScanExpr r) required = computeVirtualScanCost r"
| "ComputeCost_switch X c (SelectExpr i fs r) required = computeSelectCost i"
| "ComputeCost_switch X c (ProjectExpr i ps pt r) required = computeProjectCost ps r"
| "ComputeCost_switch X c (ValuesExpr rows cols r) required = computeValuesCost r"
| "ComputeCost_switch X c (JoinExpr op l r' on p r) required = computeHashJoinCost l r' p r"
| "ComputeCost_switch X c (MergeJoinExpr l r' r) required = computeMergeJoinCost l r' r"
| "ComputeCost_switch X c (IndexJoinExpr i p r) required = computeIndexJoinCost c i p"
| "ComputeCost_switch X c (LookupJoinExpr i on p r) required = computeLookupJoinCost c i on p r"
| "ComputeCost_switch X c (ZigzagJoinExpr p r) required = computeZigzagJoinCost c p r"
| "ComputeCost_switch X c (SetExpr op l r' r) required = computeSetCost op l r' r"
| "ComputeCost_switch X c (GroupingExpr op i aggs p r) required = computeGroupingCost X i aggs p r required"
| "ComputeCost_switch X c (LimitExpr i r) required = computeLimitCost r"
| "ComputeCost_switch X c (OffsetExpr i r) required = computeOffsetCost r"
| "ComputeCost_switch X c (OrdinalityExpr i r) required = computeOrdinalityCost r"
| "ComputeCost_switch X c (ProjectSetExpr i r) required = computeProjectSetCost r"
| "ComputeCost_switch X c (ExplainExpr i r) required = 0"
| "ComputeCost_switch X c (OtherExpr name r) required = 0"

text \<open>
  \<open>rnd\<close> is the value \<open>rand.Float64()\<close> returns when it is called, a number in \<open>[0, 1)\<close>.
\<close>

definition ComputeCost :: "externals \<Rightarrow> coster \<Rightarrow> RelExpr \<Rightarrow> Required \<Rightarrow> real \<Rightarrow> error + real" where
  "ComputeCost X c candidate required rnd =
     (let cost = ComputeCost_switch X c candidate required + cpuCostFactor in
      if \<not> Cost_Less cost (MaxCost X)
      then Inl (AssertionFailed ''node with MaxCost added to the memo'')
      else if perturbation c \<noteq> 0
      then (if cost < hugeCost
            then (let multiplier = 2 * rnd - 1;
                      cost' = cost + cost * (perturbation c * multiplier)
                  in Inr (if cost' < 0 then 0 else cost'))
            else Inr cost)
      else Inr cost)"

subsection \<open>The locality score as the documentation states it\<close>

text \<open>
  The comment above \<open>localityMatchScore\<close> defines \<open>m\<close> as the length of the longest
  locality prefix that ends in a tier whose \<open>matchTier\<close> value is \<open>+1\<close> and that holds no
  tier whose value is \<open>-1\<close>.  \<open>okPrefix tiers cs m\<close> says that the first \<open>m\<close> tiers are such
  a prefix (the empty prefix always is); \<open>longestMatchingPrefix\<close> is the greatest such \<open>m\<close>.
\<close>

definition okPrefix :: "Tier list \<Rightarrow> ConstraintSet \<Rightarrow> nat \<Rightarrow> bool" where
  "okPrefix tiers cs m =
     (m = 0 \<or> (matchTier (tiers ! (m - 1)) cs = 1 \<and>
                list_all (\<lambda>t. matchTier t cs \<noteq> - 1) (take m tiers)))"

definition longestMatchingPrefix :: "Tier list \<Rightarrow> ConstraintSet \<Rightarrow> nat" where
  "longestMatchingPrefix tiers cs =
     Max (set (filter (okPrefix tiers cs) [0..<Suc (length tiers)]))"





subsection \<open>Changing row-count estimates, all else equal\<close>

fun mapRelational :: "(props_Relational \<Rightarrow> props_Relational) \<Rightarrow> RelExpr \<Rightarrow> RelExpr" where
  "mapRelational f (SortExpr i r) = SortExpr i (f r)"
| "mapRelational f (ScanExpr p r) = ScanExpr p (f r)"
| "mapRelational f (VirtualScanExpr r) = VirtualScanExpr (f r)"
| "mapRelational f (SelectExpr i fs r) = SelectExpr i fs (f r)"
| "mapRelational f (ProjectExpr i ps pt r) = ProjectExpr i ps pt (f r)"
| "mapRelational f (ValuesExpr rows cols r) = ValuesExpr rows cols (f r)"
| "mapRelational f (JoinExpr op l r' on p r) = JoinExpr op l r' on p (f r)"
| "mapRelational f (MergeJoinExpr l r' r) = MergeJoinExpr l r' (f r)"
| "mapRelational f (IndexJoinExpr i p r) = IndexJoinExpr i p (f r)"
| "mapRelational f (LookupJoinExpr i on p r) = LookupJoinExpr i on p (f r)"
| "mapRelational f (ZigzagJoinExpr p r) = ZigzagJoinExpr p (f r)"
| "mapRelational f (SetExpr op l r' r) = SetExpr op l r' (f r)"
| "mapRelational f (GroupingExpr op i aggs p r) = GroupingExpr op i aggs p (f r)"
| "mapRelational f (LimitExpr i r) = LimitExpr i (f r)"
| "mapRelational f (OffsetExpr i r) = OffsetExpr i (f r)"
| "mapRelational f (OrdinalityExpr i r) = OrdinalityExpr i (f r)"
| "mapRelational f (ProjectSetExpr i r) = ProjectSetExpr i (f r)"
| "mapRelational f (ExplainExpr i r) = ExplainExpr i (f r)"
| "mapRelational f (OtherExpr name r) = OtherExpr name (f r)"

text \<open>\<open>mapInputs f g e\<close> applies \<open>f\<close> to the first (left) input of \<open>e\<close> and \<open>g\<close> to the second.\<close>

fun mapInputs :: "(RelExpr \<Rightarrow> RelExpr) \<Rightarrow> (RelExpr \<Rightarrow> RelExpr) \<Rightarrow> RelExpr \<Rightarrow> RelExpr" where
  "mapInputs f g (SortExpr i r) = SortExpr (f i) r"
| "mapInputs f g (ScanExpr p r) = ScanExpr p r"
| "mapInputs f g (VirtualScanExpr r) = VirtualScanExpr r"
| "mapInputs f g (SelectExpr i fs r) = SelectExpr (f i) fs r"
| "mapInputs f g (ProjectExpr i ps pt r) = ProjectExpr (f i) ps pt r"
| "mapInputs f g (ValuesExpr rows cols r) = ValuesExpr rows cols r"
| "mapInputs f g (JoinExpr op l r' on p r) = JoinExpr op (f l) (g r') on p r"
| "mapInputs f g (MergeJoinExpr l r' r) = MergeJoinExpr (f l) (g r') r"
| "mapInputs f g (IndexJoinExpr i p r) = IndexJoinExpr (f i) p r"
| "mapInputs f g (LookupJoinExpr i on p r) = LookupJoinExpr (f i) on p r"
| "mapInputs f g (ZigzagJoinExpr p r) = ZigzagJoinExpr p r"
| "mapInputs f g (SetExpr op l r' r) = SetExpr op (f l) (g r') r"
| "mapInputs f g (GroupingExpr op i aggs p r) = GroupingExpr op (f i) aggs p r"
| "mapInputs f g (LimitExpr i r) = LimitExpr (f i) r"
| "mapInputs f g (OffsetExpr i r) = OffsetExpr (f i) r"
| "mapInputs f g (OrdinalityExpr i r) = OrdinalityExpr (f i) r"
| "mapInputs f g (ProjectSetExpr i r) = ProjectSetExpr (f i) r"
| "mapInputs f g (ExplainExpr i r) = ExplainExpr (f i) r"
| "mapInputs f g (OtherExpr name r) = OtherExpr name r"

definition withRowCount :: "real \<Rightarrow> RelExpr \<Rightarrow> RelExpr" where
  "withRowCount n e = mapRelational (\<lambda>r. r\<lparr>Stats := (Stats r)\<lparr>RowCount := n\<rparr>\<rparr>) e"

text \<open>
  \<open>withRowCounts n l r e\<close> is \<open>e\<close> with the row-count estimate of the expression itself set
  to \<open>n\<close>, that of its first input to \<open>l\<close> and that of its second input to \<open>r\<close>; every other
  statistic, property and private field is that of \<open>e\<close>.
\<close>

definition withRowCounts :: "real \<Rightarrow> real \<Rightarrow> real \<Rightarrow> RelExpr \<Rightarrow> RelExpr" where
  "withRowCounts n l r e = mapInputs (withRowCount l) (withRowCount r) (withRowCount n e)"

subsection \<open>Example inputs for the cost model\<close>

definition exampleRelational :: "real \<Rightarrow> props_Relational" where
  "exampleRelational n = \<lparr>Stats = \<lparr>RowCount = n\<rparr>, OutputCols = ColSet [1, 2]\<rparr>"

definition exampleExternals :: externals where
  "exampleExternals =
     \<lparr>MaxCost = 10 ^ 308, ScanIsReverse = (\<lambda>_ _. False),
      StreamingGroupingColOrdering = (\<lambda>_ _. [])\<rparr>"

definition exampleCoster :: "real \<Rightarrow> coster" where
  "exampleCoster p =
     \<lparr>mem = \<lparr>TableIndex = (\<lambda>_ _. \<lparr>ColumnCount = 2,
                  IndexZone = \<lparr>ReplicaConstraints = [], LeasePreferences = []\<rparr>\<rparr>),
             IndexColumns = (\<lambda>_ _. ColSet [1, 2])\<rparr>,
      locality = \<lparr>Tiers = []\<rparr>,
      perturbation = p\<rparr>"

definition exampleRequired :: Required where
  "exampleRequired = \<lparr>Ordering = \<lparr>Optional = ColSet [], Columns = []\<rparr>\<rparr>"

text \<open>A scan of the primary index (ordinal 0) under a hint that forces index 1.\<close>

definition exampleForcedScan :: RelExpr where
  "exampleForcedScan =
     ScanExpr \<lparr>Scan_Table = 1, Scan_Index = 0, Scan_Cols = ColSet [1, 2],
               Scan_Constraint = None,
               Scan_Flags = \<lparr>ForceIndex = True, Flags_Index = 1\<rparr>\<rparr>
              (exampleRelational 1000)"

definition exampleGroupBy :: RelExpr where
  "exampleGroupBy =
     GroupingExpr GroupByOp (VirtualScanExpr (exampleRelational 0))
       [\<lparr>Agg = OpExpr (FunctionOp ''sum'') [VariableExpr 2], AggCol = 3\<rparr>]
       \<lparr>GroupingCols = ColSet [1],
        Grouping_Ordering = \<lparr>Optional = ColSet [1], Columns = []\<rparr>\<rparr>
       (exampleRelational 0)"

section \<open>Inlining of constants (pkg/sql/opt/norm/inline.go)\<close>

text \<open>
  \<open>opt.IsConstValueOp\<close> is declared outside the sources at hand; the comment of
  \<open>FindInlinableConstants\<close> lists the operators it accepts: \<open>ConstOp\<close>, \<open>TrueOp\<close>, \<open>FalseOp\<close>
  and \<open>NullOp\<close>.
\<close>

fun IsConstValueOp :: "Expr \<Rightarrow> bool" where
  "IsConstValueOp (ConstExpr _) = True"
| "IsConstValueOp TrueExpr = True"
| "IsConstValueOp FalseExpr = True"
| "IsConstValueOp NullExpr = True"
| "IsConstValueOp _ = False"

text \<open>The results of a list of calls in order; the first panic ends the evaluation.\<close>

fun sequence_sum :: "(error + 'a) list \<Rightarrow> error + 'a list" where
  "sequence_sum [] = Inr []"
| "sequence_sum (x # xs) =
     (case x of
        Inl err \<Rightarrow> Inl err
      | Inr v \<Rightarrow> (case sequence_sum xs of Inl err \<Rightarrow> Inl err | Inr vs \<Rightarrow> Inr (v # vs)))"

text \<open>The loop of \<open>FindInlinableConstants\<close> over \<open>project.Projections\<close>.\<close>

fun FindInlinableConstants_projections :: "ProjectionsItem list \<Rightarrow> ColSet \<Rightarrow> ColSet" where
  "FindInlinableConstants_projections [] cols = cols"
| "FindInlinableConstants_projections (item # rest) cols =
     FindInlinableConstants_projections rest
       (if IsConstValueOp (Element item) then Add cols (Col item) else cols)"

text \<open>
  The loops over \<open>tup.Elems\<close> read \<open>values.Cols[i]\<close> at the index of the element: the two
  lists are walked together, and an element without a column is an index out of range.
\<close>

fun FindInlinableConstants_values :: "Expr list \<Rightarrow> ColumnID list \<Rightarrow> ColSet \<Rightarrow> error + ColSet" where
  "FindInlinableConstants_values [] vcols cols = Inr cols"
| "FindInlinableConstants_values (scalar # elems) [] cols =
     (if IsConstValueOp scalar then Inl IndexOutOfRange
      else FindInlinableConstants_values elems [] cols)"
| "FindInlinableConstants_values (scalar # elems) (vc # vcols) cols =
     FindInlinableConstants_values elems vcols
       (if IsConstValueOp scalar then Add cols vc else cols)"

definition FindInlinableConstants :: "RelExpr \<Rightarrow> error + ColSet" where
  "FindInlinableConstants input =
     (case input of
        ProjectExpr _ projections _ _ \<Rightarrow>
          Inr (FindInlinableConstants_projections projections (ColSet []))
      | ValuesExpr rows vcols _ \<Rightarrow>
          (case rows of
             [row] \<Rightarrow>
               (case row of
                  OpExpr op elems \<Rightarrow>
                    (if op = TupleOp then FindInlinableConstants_values elems vcols (ColSet [])
                     else Inl TypeAssertionFailed)
                | _ \<Rightarrow> Inl TypeAssertionFailed)
           | _ \<Rightarrow> Inr (ColSet []))
      | _ \<Rightarrow> Inr (ColSet []))"

fun extractColumn_projections :: "ProjectionsItem list \<Rightarrow> ColumnID \<Rightarrow> Expr option" where
  "extractColumn_projections [] col = None"
| "extractColumn_projections (item # rest) col =
     (if Col item = col then Some (Element item) else extractColumn_projections rest col)"

fun extractColumn_values :: "Expr list \<Rightarrow> ColumnID list \<Rightarrow> ColumnID \<Rightarrow> error + Expr option" where
  "extractColumn_values [] vcols col = Inr None"
| "extractColumn_values (scalar # elems) [] col = Inl IndexOutOfRange"
| "extractColumn_values (scalar # elems) (vc # vcols) col =
     (if vc = col then Inr (Some scalar) else extractColumn_values elems vcols col)"

definition extractColumn :: "RelExpr \<Rightarrow> ColumnID \<Rightarrow> error + Expr" where
  "extractColumn input col =
     (case input of
        ProjectExpr _ projections _ _ \<Rightarrow>
          (case extractColumn_projections projections col of
             Some e \<Rightarrow> Inr e
           | None \<Rightarrow> Inl (AssertionFailed ''could not find column to extract''))
      | ValuesExpr rows vcols _ \<Rightarrow>
          (case rows of
             [row] \<Rightarrow>
               (case row of
                  OpExpr op elems \<Rightarrow>
                    (if op = TupleOp
                     then (case extractColumn_values elems vcols col of
                             Inl err \<Rightarrow> Inl err
                           | Inr (Some e) \<Rightarrow> Inr e
                           | Inr None \<Rightarrow> Inl (AssertionFailed ''could not find column to extract''))
                     else Inl TypeAssertionFailed)
                | _ \<Rightarrow> Inl TypeAssertionFailed)
           | _ \<Rightarrow> Inl (AssertionFailed ''could not find column to extract''))
      | _ \<Rightarrow> Inl (AssertionFailed ''could not find column to extract''))"

text \<open>
  \<open>inlineConstants\<close>: the closure \<open>replace\<close>.  Modelled from the spec: \<open>Factory.Replace\<close>
  (norm/factory.go is not part of the sources at hand) rebuilds the expression from the
  results of \<open>replace\<close> on its children, in order; an expression without children is
  returned as it is.
\<close>

fun inlineConstants :: "RelExpr \<Rightarrow> ColSet \<Rightarrow> Expr \<Rightarrow> error + Expr" where
  "inlineConstants input constCols (VariableExpr col) =
     (if Contains constCols col then extractColumn input col else Inr (VariableExpr col))"
| "inlineConstants input constCols (OpExpr op es) =
     (case sequence_sum (map (inlineConstants input constCols) es) of
        Inl err \<Rightarrow> Inl err
      | Inr es' \<Rightarrow> Inr (OpExpr op es'))"
| "inlineConstants input constCols e = Inr e"

text \<open>A \<open>FiltersItem\<close> is its \<open>Condition\<close>.\<close>

definition InlineFilterConstants :: "Expr list \<Rightarrow> RelExpr \<Rightarrow> ColSet \<Rightarrow> error + Expr list" where
  "InlineFilterConstants filters input constCols =
     sequence_sum (map (inlineConstants input constCols) filters)"

definition InlineProjectionConstants ::
  "ProjectionsItem list \<Rightarrow> RelExpr \<Rightarrow> ColSet \<Rightarrow> error + ProjectionsItem list" where
  "InlineProjectionConstants projections input constCols =
     sequence_sum (map (\<lambda>item.
        case inlineConstants input constCols (Element item) of
          Inl err \<Rightarrow> Inl err
        | Inr e \<Rightarrow> Inr \<lparr>Element = e, Col = Col item\<rparr>) projections)"

subsection \<open>Inlining as the documentation states it\<close>

text \<open>The references of an expression to columns of \<open>constCols\<close>.\<close>

fun constRefs :: "ColSet \<Rightarrow> Expr \<Rightarrow> ColumnID list" where
  "constRefs constCols (VariableExpr col) = (if Contains constCols col then [col] else [])"
| "constRefs constCols (OpExpr op es) = concat (map (constRefs constCols) es)"
| "constRefs constCols e = []"

text \<open>
  The substitution the documentation describes: every variable that refers to a column of
  \<open>constCols\<close> becomes that column's defining expression, everything else stays.
\<close>

fun substConstants :: "(ColumnID \<Rightarrow> Expr) \<Rightarrow> ColSet \<Rightarrow> Expr \<Rightarrow> Expr" where
  "substConstants def constCols (VariableExpr col) =
     (if Contains constCols col then def col else VariableExpr col)"
| "substConstants def constCols (OpExpr op es) = OpExpr op (map (substConstants def constCols) es)"
| "substConstants def constCols e = e"

definition definingExpr :: "RelExpr \<Rightarrow> ColumnID \<Rightarrow> Expr" where
  "definingExpr input col = (case extractColumn input col of Inr d \<Rightarrow> d | Inl _ \<Rightarrow> VariableExpr col)"

text \<open>
  The value of a scalar expression on a row, for any meaning \<open>opsem\<close> of the operators and
  any meaning \<open>leaf\<close> of the constants (the execution engine is not part of the sources at
  hand).  \<open>row\<close> gives the value of every column.
\<close>

fun evalExpr :: "(Operator \<Rightarrow> 'v list \<Rightarrow> 'v) \<Rightarrow> (Expr \<Rightarrow> 'v) \<Rightarrow> (ColumnID \<Rightarrow> 'v) \<Rightarrow> Expr \<Rightarrow> 'v" where
  "evalExpr opsem leaf row (VariableExpr col) = row col"
| "evalExpr opsem leaf row (OpExpr op es) = opsem op (map (evalExpr opsem leaf row) es)"
| "evalExpr opsem leaf row e = leaf e"

text \<open>
  \<open>Project{a: 5, b: x + 1}\<close> over some input, with \<open>x\<close>, \<open>a\<close>, \<open>b\<close> the columns 1, 2, 3, and
  the filter \<open>a = 5\<close> of a \<open>Select\<close> above it.
\<close>

definition exampleProject :: RelExpr where
  "exampleProject =
     ProjectExpr (VirtualScanExpr (exampleRelational 10))
       [\<lparr>Element = ConstExpr 5, Col = 2\<rparr>,
        \<lparr>Element = OpExpr PlusOp [VariableExpr 1, ConstExpr 1], Col = 3\<rparr>]
       (ColSet []) (exampleRelational 10)"

definition exampleFilter :: Expr where
  "exampleFilter = OpExpr EqOp [VariableExpr 2, ConstExpr 5]"

section \<open>Building aggregations (package optbuilder, groupby.go)\<close>

subsection \<open>Scopes and builder state\<close>

text \<open>
  The SQL syntax tree (package \<open>tree\<close>) is not part of the sources at hand: expressions
  of the tree are values of a type parameter \<open>'x\<close>, read through the accessors of the
  record \<open>env\<close> below.  Scopes are shared through pointers, so they live in a store indexed
  by address; a pointer to a column of a scope (\<open>*scopeColumn\<close>, the address of an element
  of \<open>scope.cols\<close>) is the address of the scope and the position of the column.
\<close>

type_synonym addr = nat

type_synonym colptr = "addr \<times> nat"

type_synonym T = string

datatype FuncType = NormalFuncType | DistinctFuncType | AllFuncType

record FunctionPrivate =
  Name :: string
  Overload :: string

record 'x scopeColumn =
  col_name :: string
  col_typ :: T
  col_id :: ColumnID
  col_scalar :: "Expr option"
  col_expr :: "'x option"

record 'x aggregateInfo =
  agg_FuncExpr :: 'x
  agg_def :: FunctionPrivate
  agg_distinct :: bool
  agg_args :: "Expr list"
  agg_filter :: "Expr option"
  agg_col :: "colptr option"
  agg_colRefs :: ColSet

record 'x groupby =
  groupby_aggInScope :: "addr option"
  groupby_aggOutScope :: "addr option"
  groupby_aggs :: "'x aggregateInfo list"
  groupStrs :: "string \<rightharpoonup> colptr"
  inAgg :: bool
  buildingGroupingCols :: bool

record 'x scope =
  scope_cols :: "'x scopeColumn list"
  scope_groupby :: "'x groupby"
  scope_context :: string

text \<open>
  The state of a \<open>Builder\<close> that the functions below read or write: the scopes, the
  properties of the semantic context (\<open>b.semaCtx.Properties\<close>), the subquery under
  construction (\<open>b.subquery\<close>), and \<open>aux\<close> for everything else (factory, memo, metadata).
\<close>

record ('x, 'p, 'q, 'a) bstate =
  scopes :: "addr \<Rightarrow> 'x scope"
  semaProps :: 'p
  subquery :: "'q option"
  aux :: 'a

record 'x SelectExpr =
  Sel_Expr :: 'x
  Sel_As :: string

text \<open>
  The functions of this repository that groupby.go calls and that are not part of the
  sources at hand.  Each is a parameter.  A helper that receives the builder or a scope
  pointer and may write through it takes the state and returns the new one.
\<close>

record ('x, 'p, 'q, 'a) env =
  StripParens :: "'x \<Rightarrow> 'x"
  colIndex :: "nat \<Rightarrow> 'x \<Rightarrow> string \<Rightarrow> error + int"
  expandStarAndResolveType ::
    "'x \<Rightarrow> addr \<Rightarrow> ('x, 'p, 'q, 'a) bstate \<Rightarrow> error + ('x list \<times> ('x, 'p, 'q, 'a) bstate)"
  flattenTuples :: "'x list \<Rightarrow> 'x list"
  symbolicExprStr :: "'x \<Rightarrow> string"
  Require :: "string \<Rightarrow> 'p \<Rightarrow> 'p"
  ResolvedType :: "'x \<Rightarrow> T"
  Exprs :: "'x \<Rightarrow> 'x list"
  Filter :: "'x \<Rightarrow> 'x option"
  Type :: "'x \<Rightarrow> FuncType"
  buildScalar ::
    "'x \<Rightarrow> addr \<Rightarrow> addr option \<Rightarrow> colptr option \<Rightarrow> ColSet option \<Rightarrow> ('x, 'p, 'q, 'a) bstate
       \<Rightarrow> error + (Expr \<times> ColSet option \<times> ('x, 'p, 'q, 'a) bstate)"
  startAggFunc :: "addr \<Rightarrow> ('x, 'p, 'q, 'a) bstate \<Rightarrow> error + (addr \<times> ('x, 'p, 'q, 'a) bstate)"
  endAggFunc ::
    "addr \<Rightarrow> ColSet \<Rightarrow> ('x, 'p, 'q, 'a) bstate \<Rightarrow> error + ((addr \<times> addr) \<times> ('x, 'p, 'q, 'a) bstate)"
  MetadataAddColumn :: "string \<Rightarrow> T \<Rightarrow> 'a \<Rightarrow> ColumnID \<times> 'a"

text \<open>
  The factory methods (package \<open>norm\<close>) and \<open>OrderingChoice.FromOrderingWithOptCols\<close>
  (package \<open>physical\<close>) that \<open>constructGroupBy\<close> calls; they are parameters as well.
\<close>

record Factory =
  ConstructScalarGroupBy :: "RelExpr \<Rightarrow> AggregationsItem list \<Rightarrow> GroupingPrivate \<Rightarrow> RelExpr"
  ConstructGroupBy :: "RelExpr \<Rightarrow> AggregationsItem list \<Rightarrow> GroupingPrivate \<Rightarrow> RelExpr"
  FromOrderingWithOptCols :: "Ordering \<Rightarrow> ColSet \<Rightarrow> OrderingChoice"

definition updScope ::
  "addr \<Rightarrow> ('x scope \<Rightarrow> 'x scope) \<Rightarrow> ('x, 'p, 'q, 'a) bstate \<Rightarrow> ('x, 'p, 'q, 'a) bstate" where
  "updScope a f st = st\<lparr>scopes := (scopes st)(a := f (scopes st a))\<rparr>"

text \<open>
  Reading through a column pointer.  A position beyond the end of the scope's columns can
  only arise when a helper has truncated the scope while one of its columns was being
  built; it is an error of the model.
\<close>

definition getCol :: "('x, 'p, 'q, 'a) bstate \<Rightarrow> colptr \<Rightarrow> error + 'x scopeColumn" where
  "getCol st ptr =
     (let cs = scope_cols (scopes st (fst ptr))
      in if snd ptr < length cs then Inr (cs ! snd ptr) else Inl IndexOutOfRange)"

text \<open>
  Modelled from the spec: \<open>Builder.addColumn\<close> and \<open>Builder.synthesizeColumn\<close> (scope.go
  and builder.go are not part of the sources at hand).  \<open>addColumn\<close> allocates a new column
  of the scope for the expression, under the given alias; \<open>synthesizeColumn\<close> allocates a
  new column id in the metadata and appends a column with that id.  Both return a pointer
  to the new column.
\<close>

definition addColumn ::
  "('x, 'p, 'q, 'a) env \<Rightarrow> addr \<Rightarrow> string \<Rightarrow> 'x \<Rightarrow> ('x, 'p, 'q, 'a) bstate
     \<Rightarrow> colptr \<times> ('x, 'p, 'q, 'a) bstate" where
  "addColumn E sc alias expr st =
     ((sc, length (scope_cols (scopes st sc))),
      updScope sc (\<lambda>s. s\<lparr>scope_cols := scope_cols s @
         [\<lparr>col_name = alias, col_typ = ResolvedType E expr, col_id = 0,
           col_scalar = None, col_expr = Some expr\<rparr>]\<rparr>) st)"

definition synthesizeColumn ::
  "('x, 'p, 'q, 'a) env \<Rightarrow> addr \<Rightarrow> string \<Rightarrow> T \<Rightarrow> 'x option \<Rightarrow> Expr option
     \<Rightarrow> ('x, 'p, 'q, 'a) bstate \<Rightarrow> colptr \<times> ('x, 'p, 'q, 'a) bstate" where
  "synthesizeColumn E sc alias typ expr scalar st =
     (let (colID, aux') = MetadataAddColumn E alias typ (aux st);
          st1 = st\<lparr>aux := aux'\<rparr>
      in ((sc, length (scope_cols (scopes st1 sc))),
          updScope sc (\<lambda>s. s\<lparr>scope_cols := scope_cols s @
            [\<lparr>col_name = alias, col_typ = typ, col_id = colID,
              col_scalar = scalar, col_expr = expr\<rparr>]\<rparr>) st1))"

subsection \<open>constructGroupBy\<close>

text \<open>The loop over \<open>aggCols\<close> carries \<open>aggs\<close> and \<open>colSet\<close>.\<close>

fun constructGroupBy_loop ::
  "'x scopeColumn list \<Rightarrow> AggregationsItem list \<Rightarrow> ColSet \<Rightarrow> error + AggregationsItem list" where
  "constructGroupBy_loop [] aggs colSet = Inr aggs"
| "constructGroupBy_loop (c # rest) aggs colSet =
     (if \<not> Contains colSet (col_id c)
      then (case col_scalar c of
              None \<Rightarrow> Inl (AssertionFailed ''variable as aggregation'')
            | Some scalar \<Rightarrow>
                constructGroupBy_loop rest (aggs @ [\<lparr>Agg = scalar, AggCol = col_id c\<rparr>])
                  (Add colSet (col_id c)))
      else constructGroupBy_loop rest aggs colSet)"

definition constructGroupBy ::
  "Factory \<Rightarrow> RelExpr \<Rightarrow> ColSet \<Rightarrow> 'x scopeColumn list \<Rightarrow> Ordering \<Rightarrow> error + RelExpr" where
  "constructGroupBy factory input groupingColSet aggCols ord =
     (case constructGroupBy_loop aggCols [] (ColSet []) of
        Inl err \<Rightarrow> Inl err
      | Inr aggs \<Rightarrow>
          (let private = \<lparr>GroupingCols = groupingColSet,
                          Grouping_Ordering = FromOrderingWithOptCols factory ord groupingColSet\<rparr>
           in if Empty groupingColSet
              then Inr (ConstructScalarGroupBy factory input aggs private)
              else Inr (ConstructGroupBy factory input aggs private)))"

subsection \<open>buildGrouping and buildGroupingList\<close>






subsection \<open>buildAggArg and buildAggregateFunction\<close>

text \<open>\<open>Factory.ConstructVariable\<close> builds the variable expression of a column.\<close>

definition ConstructVariable :: "ColumnID \<Rightarrow> Expr" where
  "ConstructVariable col = VariableExpr col"

text \<open>
  \<open>buildAggArg\<close>.  \<open>buildScalar\<close> receives \<open>&info.colRefs\<close>: the set goes in and the updated
  set comes back.
\<close>

definition buildAggArg ::
  "('x, 'p, 'q, 'a) env \<Rightarrow> 'x \<Rightarrow> 'x aggregateInfo \<Rightarrow> addr \<Rightarrow> addr \<Rightarrow> ('x, 'p, 'q, 'a) bstate
     \<Rightarrow> error + (Expr \<times> 'x aggregateInfo \<times> ('x, 'p, 'q, 'a) bstate)" where
  "buildAggArg E e info tempScope inScope st =
     (let (col, st1) = addColumn E tempScope [] e st in
      case buildScalar E e inScope (Some tempScope) (Some col) (Some (agg_colRefs info)) st1 of
        Inl err \<Rightarrow> Inl err
      | Inr (_, colRefs, st2) \<Rightarrow>
          (case getCol st2 col of
             Inl err \<Rightarrow> Inl err
           | Inr c \<Rightarrow>
               Inr ((case col_scalar c of
                       Some scalar \<Rightarrow> scalar
                     | None \<Rightarrow> ConstructVariable (col_id c)),
                    info\<lparr>agg_colRefs := (case colRefs of Some r \<Rightarrow> r | None \<Rightarrow> agg_colRefs info)\<rparr>,
                    st2)))"

text \<open>
  The loop over \<open>f.Exprs\<close>.  The source allocates \<open>info.args\<close> at its final length and
  assigns the entries in order; here the list grows by one entry per argument.
\<close>

fun buildAggregateFunction_loop ::
  "('x, 'p, 'q, 'a) env \<Rightarrow> 'x list \<Rightarrow> 'x aggregateInfo \<Rightarrow> addr \<Rightarrow> addr \<Rightarrow> ('x, 'p, 'q, 'a) bstate
     \<Rightarrow> error + ('x aggregateInfo \<times> ('x, 'p, 'q, 'a) bstate)" where
  "buildAggregateFunction_loop E [] info tempScope inScope st = Inr (info, st)"
| "buildAggregateFunction_loop E (pexpr # rest) info tempScope inScope st =
     (case buildAggArg E pexpr info tempScope inScope st of
        Inl err \<Rightarrow> Inl err
      | Inr (arg, info1, st1) \<Rightarrow>
          buildAggregateFunction_loop E rest (info1\<lparr>agg_args := agg_args info1 @ [arg]\<rparr>)
            tempScope inScope st1)"

text \<open>
  The first part of \<open>buildAggregateFunction\<close>, up to the call of \<open>endAggFunc\<close>.  It yields
  \<open>tempScope\<close>, \<open>tempScopeColsBefore\<close>, the saved \<open>b.subquery\<close>, \<open>info\<close> with its arguments
  and filter built, the two scopes \<open>endAggFunc\<close> returns, and the state.
\<close>

definition buildAggregateFunction_args ::
  "('x, 'p, 'q, 'a) env \<Rightarrow> 'x \<Rightarrow> FunctionPrivate \<Rightarrow> addr \<Rightarrow> ('x, 'p, 'q, 'a) bstate
     \<Rightarrow> error + (addr \<times> nat \<times> 'q option \<times> 'x aggregateInfo \<times> addr \<times> addr \<times> ('x, 'p, 'q, 'a) bstate)" where
  "buildAggregateFunction_args E f def inScope st =
     (case startAggFunc E inScope st of
        Inl err \<Rightarrow> Inl err
      | Inr (tempScope, st0) \<Rightarrow>
          (let tempScopeColsBefore = length (scope_cols (scopes st0 tempScope));
               info = \<lparr>agg_FuncExpr = f, agg_def = def,
                       agg_distinct = (Type E f = DistinctFuncType),
                       agg_args = [], agg_filter = None, agg_col = None,
                       agg_colRefs = ColSet []\<rparr>;
               subq = subquery st0;
               st1 = st0\<lparr>subquery := None\<rparr>
           in case buildAggregateFunction_loop E (Exprs E f) info tempScope inScope st1 of
                Inl err \<Rightarrow> Inl err
              | Inr (info1, st2) \<Rightarrow>
                  (case (case Filter E f of
                           None \<Rightarrow> Inr (info1, st2)
                         | Some flt \<Rightarrow>
                             (case buildAggArg E flt info1 tempScope inScope st2 of
                                Inl err \<Rightarrow> Inl err
                              | Inr (arg, info2, st3) \<Rightarrow> Inr (info2\<lparr>agg_filter := Some arg\<rparr>, st3))) of
                     Inl err \<Rightarrow> Inl err
                   | Inr (info3, st4) \<Rightarrow>
                       (case endAggFunc E inScope (agg_colRefs info3) st4 of
                          Inl err \<Rightarrow> Inl err
                        | Inr ((aggInScope, aggOutScope), st5) \<Rightarrow>
                            Inr (tempScope, tempScopeColsBefore, subq, info3,
                                 aggInScope, aggOutScope, st5)))))"

text \<open>
  Modelled from the spec: \<open>scope.findAggregate\<close> (scope.go is not part of the sources at
  hand).  The spec has it look among the aggregates of the grouping scope for an entry
  with identical definition, arguments, distinct flag and filter, and yield the output
  column of that entry.
\<close>

definition findAggregate :: "'x scope \<Rightarrow> 'x aggregateInfo \<Rightarrow> colptr option" where
  "findAggregate s agg =
     (case find (\<lambda>a. agg_def a = agg_def agg \<and> agg_args a = agg_args agg \<and>
                      agg_distinct a = agg_distinct agg \<and> agg_filter a = agg_filter agg)
                (groupby_aggs (scope_groupby s)) of
        None \<Rightarrow> None
      | Some a \<Rightarrow> agg_col a)"

text \<open>
  The second part of \<open>buildAggregateFunction\<close>, from \<open>findAggregate\<close> on.  The slice
  expressions \<open>tempScope.cols[n:]\<close> and \<open>tempScope.cols[:n]\<close> need \<open>n\<close> within the slice; the
  capacity of a slice is not modelled, so \<open>n\<close> beyond the length is out of range.
\<close>

definition buildAggregateFunction_dedup ::
  "('x, 'p, 'q, 'a) env \<Rightarrow> 'x \<Rightarrow> FunctionPrivate \<Rightarrow> addr \<Rightarrow> nat \<Rightarrow> 'x aggregateInfo \<Rightarrow> addr \<Rightarrow> addr
     \<Rightarrow> ('x, 'p, 'q, 'a) bstate \<Rightarrow> error + ('x aggregateInfo \<times> ('x, 'p, 'q, 'a) bstate)" where
  "buildAggregateFunction_dedup E f def tempScope tempScopeColsBefore info aggInScope aggOutScope st =
     (case findAggregate (scopes st aggOutScope) info of
        None \<Rightarrow>
          (let (col, st1) = synthesizeColumn E aggOutScope (Name def) (ResolvedType E f) (Some f) None st;
               info1 = info\<lparr>agg_col := Some col\<rparr>
           in case (if aggInScope \<noteq> tempScope
                    then (let tcols = scope_cols (scopes st1 tempScope)
                          in if tempScopeColsBefore \<le> length tcols
                             then Inr (updScope tempScope
                                         (\<lambda>s. s\<lparr>scope_cols := take tempScopeColsBefore (scope_cols s)\<rparr>)
                                         (updScope aggInScope
                                            (\<lambda>s. s\<lparr>scope_cols := scope_cols s @ drop tempScopeColsBefore tcols\<rparr>)
                                            st1))
                             else Inl IndexOutOfRange)
                    else Inr st1) of
                Inl err \<Rightarrow> Inl err
              | Inr st2 \<Rightarrow>
                  Inr (info1,
                       updScope aggOutScope
                         (\<lambda>s. s\<lparr>scope_groupby := (scope_groupby s)
                                  \<lparr>groupby_aggs := groupby_aggs (scope_groupby s) @ [info1]\<rparr>\<rparr>) st2))
      | Some col \<Rightarrow>
          (if tempScopeColsBefore \<le> length (scope_cols (scopes st tempScope))
           then Inr (info\<lparr>agg_col := Some col\<rparr>,
                     updScope tempScope
                       (\<lambda>s. s\<lparr>scope_cols := take tempScopeColsBefore (scope_cols s)\<rparr>) st)
           else Inl IndexOutOfRange))"

text \<open>\<open>buildAggregateFunction\<close>.  The deferred function puts \<open>b.subquery\<close> back.\<close>

definition buildAggregateFunction ::
  "('x, 'p, 'q, 'a) env \<Rightarrow> 'x \<Rightarrow> FunctionPrivate \<Rightarrow> addr \<Rightarrow> ('x, 'p, 'q, 'a) bstate
     \<Rightarrow> error + ('x aggregateInfo \<times> ('x, 'p, 'q, 'a) bstate)" where
  "buildAggregateFunction E f def inScope st =
     (case buildAggregateFunction_args E f def inScope st of
        Inl err \<Rightarrow> Inl err
      | Inr (tempScope, tempScopeColsBefore, subq, info, aggInScope, aggOutScope, st1) \<Rightarrow>
          (case buildAggregateFunction_dedup E f def tempScope tempScopeColsBefore info
                  aggInScope aggOutScope st1 of
             Inl err \<Rightarrow> Inl err
           | Inr (info1, st2) \<Rightarrow> Inr (info1, st2\<lparr>subquery := subq\<rparr>)))"

subsection \<open>Example inputs for the builder\<close>

text \<open>
  A builder over a table \<open>t(x, y)\<close> whose columns have the ids 1 and 2.  Expressions of
  the syntax tree are their SQL text.  Scope 0 is the scope of the FROM clause, scope 1
  its \<open>aggInScope\<close> and scope 2 its \<open>aggOutScope\<close>.  \<open>buildScalar\<close> on a column reference
  gives the target column the id of the referenced column and adds it to \<open>colRefs\<close>.
\<close>

definition exampleColumnID :: "string \<Rightarrow> ColumnID" where
  "exampleColumnID e = (if e = ''x'' then 1 else 2)"

definition exampleEnv :: "(string, unit, unit, int) env" where
  "exampleEnv =
     \<lparr>StripParens = (\<lambda>e. e),
      colIndex = (\<lambda>_ _ _. Inr (- 1)),
      expandStarAndResolveType = (\<lambda>e _ st. Inr ([e], st)),
      flattenTuples = (\<lambda>es. es),
      symbolicExprStr = (\<lambda>e. e),
      Require = (\<lambda>_ p. p),
      ResolvedType = (\<lambda>_. ''int''),
      Exprs = (\<lambda>f. if f = ''sum(x)'' then [''x''] else []),
      Filter = (\<lambda>_. None),
      Type = (\<lambda>_. NormalFuncType),
      buildScalar = (\<lambda>e _ _ col colRefs st.
         Inr (VariableExpr (exampleColumnID e),
              map_option (\<lambda>r. Add r (exampleColumnID e)) colRefs,
              (case col of
                 None \<Rightarrow> st
               | Some ptr \<Rightarrow>
                   updScope (fst ptr)
                     (\<lambda>s. s\<lparr>scope_cols := (scope_cols s)
                        [snd ptr := (scope_cols s ! snd ptr)\<lparr>col_id := exampleColumnID e\<rparr>]\<rparr>) st))),
      startAggFunc = (\<lambda>_ st. Inr (1, st)),
      endAggFunc = (\<lambda>_ _ st. Inr ((1, 2), st)),
      MetadataAddColumn = (\<lambda>_ _ n. (n, n + 1))\<rparr>"

definition exampleScope :: "string scope" where
  "exampleScope =
     \<lparr>scope_cols = [],
      scope_groupby = \<lparr>groupby_aggInScope = None, groupby_aggOutScope = None, groupby_aggs = [],
                       groupStrs = Map.empty, inAgg = False, buildingGroupingCols = False\<rparr>,
      scope_context = []\<rparr>"

definition exampleState :: "(string, unit, unit, int) bstate" where
  "exampleState = \<lparr>scopes = (\<lambda>_. exampleScope), semaProps = (), subquery = None, aux = 3\<rparr>"

definition exampleSum :: FunctionPrivate where
  "exampleSum = \<lparr>Name = ''sum'', Overload = ''sum(int)''\<rparr>"

definition exampleFactory :: Factory where
  "exampleFactory =
     \<lparr>ConstructScalarGroupBy = (\<lambda>input aggs private.
         GroupingExpr ScalarGroupByOp input aggs private (exampleRelational 1)),
      ConstructGroupBy = (\<lambda>input aggs private.
         GroupingExpr GroupByOp input aggs private (exampleRelational 1)),
      FromOrderingWithOptCols = (\<lambda>ord optCols. \<lparr>Optional = optCols, Columns = []\<rparr>)\<rparr>"

text \<open>
  The states of the example builder after \<open>sum(x)\<close> has been built once, and after the
  grouping column of \<open>GROUP BY y\<close> has been built.
\<close>

definition exampleSumInfo :: "string aggregateInfo" where
  "exampleSumInfo =
     \<lparr>agg_FuncExpr = ''sum(x)'', agg_def = exampleSum, agg_distinct = False,
      agg_args = [VariableExpr 1], agg_filter = None, agg_col = Some (2, 0),
      agg_colRefs = ColSet [1]\<rparr>"

definition exampleStateAfterSum :: "(string, unit, unit, int) bstate" where
  "exampleStateAfterSum =
     \<lparr>scopes = (\<lambda>_. exampleScope)
        (1 := exampleScope\<lparr>scope_cols :=
                [\<lparr>col_name = [], col_typ = ''int'', col_id = 1, col_scalar = None,
                  col_expr = Some ''x''\<rparr>]\<rparr>,
         2 := exampleScope\<lparr>scope_cols :=
                [\<lparr>col_name = ''sum'', col_typ = ''int'', col_id = 3, col_scalar = None,
                  col_expr = Some ''sum(x)''\<rparr>],
                scope_groupby := (scope_groupby exampleScope)\<lparr>groupby_aggs := [exampleSumInfo]\<rparr>\<rparr>),
      semaProps = (), subquery = None, aux = 4\<rparr>"

definition exampleStateAfterGroupBy :: "(string, unit, unit, int) bstate" where
  "exampleStateAfterGroupBy =
     \<lparr>scopes = (\<lambda>_. exampleScope)
        (0 := exampleScope\<lparr>scope_groupby := (scope_groupby exampleScope)
                \<lparr>groupStrs := [''y'' \<mapsto> (1, 0)], buildingGroupingCols := True\<rparr>,
                scope_context := ''GROUP BY''\<rparr>,
         1 := exampleScope\<lparr>scope_cols :=
                [\<lparr>col_name = [], col_typ = ''int'', col_id = 2, col_scalar = None,
                  col_expr = Some ''y''\<rparr>]\<rparr>),
      semaProps = (), subquery = None, aux = 3\<rparr>"

section \<open>Properties of column sets\<close>

lemma FastIntSet_Contains_set: "FastIntSet_Contains s i \<longleftrightarrow> i \<in> set s"
  by (induction s) auto




section \<open>Properties of the locality score\<close>

lemma matchTier_loop_range: "matchTier_loop t cs b \<in> {- 1, 0, 1}"
  by (induction cs arbitrary: b) auto

lemma matchTier_range: "matchTier t cs = - 1 \<or> matchTier t cs = 0 \<or> matchTier t cs = 1"
  using matchTier_loop_range [of t cs False] by (auto simp: matchTier_def)

lemma filter_upt_set: "set (filter P [0..<Suc n]) = {m. m \<le> n \<and> P m}"
  by (auto simp del: upt_Suc simp: less_Suc_eq_le)

lemma okPrefix_append:
  "m \<le> length pre \<Longrightarrow> okPrefix (pre @ rest) cs m = okPrefix pre cs m"
  by (cases m) (auto simp: okPrefix_def nth_append)

lemma longestMatchingPrefix_alt:
  "longestMatchingPrefix tiers cs = Max {m. m \<le> length tiers \<and> okPrefix tiers cs m}"
  unfolding longestMatchingPrefix_def filter_upt_set ..

lemma okPrefix_0: "okPrefix tiers cs 0"
  by (simp add: okPrefix_def)

lemma longestMatchingPrefix_le: "longestMatchingPrefix tiers cs \<le> length tiers"
proof -
  let ?S = "{m. m \<le> length tiers \<and> okPrefix tiers cs m}"
  have "finite ?S" by simp
  moreover have "?S \<noteq> {}" using okPrefix_0 by auto
  ultimately have "Max ?S \<in> ?S" by (rule Max_in)
  then show ?thesis by (simp add: longestMatchingPrefix_alt)
qed

lemma lmp_stop:
  assumes "matchTier t cs = - 1"
  shows "longestMatchingPrefix (pre @ t # rest) cs = longestMatchingPrefix pre cs"
proof -
  have "{m. m \<le> length (pre @ t # rest) \<and> okPrefix (pre @ t # rest) cs m}
      = {m. m \<le> length pre \<and> okPrefix pre cs m}"
  proof (rule set_eqI, rule iffI)
    fix m assume "m \<in> {m. m \<le> length (pre @ t # rest) \<and> okPrefix (pre @ t # rest) cs m}"
    then have ok: "okPrefix (pre @ t # rest) cs m" by simp
    show "m \<in> {m. m \<le> length pre \<and> okPrefix pre cs m}"
    proof (cases "m \<le> length pre")
      case True
      with ok show ?thesis by (simp add: okPrefix_append)
    next
      case False
      then have "t \<in> set (take m (pre @ t # rest))"
        by (auto simp: take_Cons' )
      with ok False assms show ?thesis by (auto simp: okPrefix_def list_all_iff)
    qed
  next
    fix m assume "m \<in> {m. m \<le> length pre \<and> okPrefix pre cs m}"
    then show "m \<in> {m. m \<le> length (pre @ t # rest) \<and> okPrefix (pre @ t # rest) cs m}"
      by (simp add: okPrefix_append)
  qed
  then show ?thesis by (simp add: longestMatchingPrefix_alt)
qed

lemma lmp_skip:
  assumes "matchTier t cs \<noteq> 1"
  shows "longestMatchingPrefix (pre @ [t]) cs = longestMatchingPrefix pre cs"
proof -
  have "{m. m \<le> length (pre @ [t]) \<and> okPrefix (pre @ [t]) cs m}
      = {m. m \<le> length pre \<and> okPrefix pre cs m}"
  proof (rule set_eqI, rule iffI)
    fix m assume "m \<in> {m. m \<le> length (pre @ [t]) \<and> okPrefix (pre @ [t]) cs m}"
    then have ok: "okPrefix (pre @ [t]) cs m" and le: "m \<le> Suc (length pre)" by simp_all
    show "m \<in> {m. m \<le> length pre \<and> okPrefix pre cs m}"
    proof (cases "m \<le> length pre")
      case True
      with ok show ?thesis by (simp add: okPrefix_append)
    next
      case False
      with le have "m = Suc (length pre)" by simp
      with ok assms show ?thesis by (simp add: okPrefix_def)
    qed
  next
    fix m assume "m \<in> {m. m \<le> length pre \<and> okPrefix pre cs m}"
    then show "m \<in> {m. m \<le> length (pre @ [t]) \<and> okPrefix (pre @ [t]) cs m}"
      by (simp add: okPrefix_append)
  qed
  then show ?thesis by (simp add: longestMatchingPrefix_alt)
qed

lemma lmp_hit:
  assumes "matchTier t cs = 1" and "list_all (\<lambda>t. matchTier t cs \<noteq> - 1) pre"
  shows "longestMatchingPrefix (pre @ [t]) cs = Suc (length pre)"
proof -
  have "okPrefix (pre @ [t]) cs (Suc (length pre))"
    using assms by (simp add: okPrefix_def)
  then have "Max {m. m \<le> length (pre @ [t]) \<and> okPrefix (pre @ [t]) cs m} = Suc (length pre)"
    by (intro Max_eqI) auto
  then show ?thesis by (simp add: longestMatchingPrefix_alt)
qed

lemma matchConstraints_loop_lmp:
  "list_all (\<lambda>t. matchTier t cs \<noteq> - 1) pre \<Longrightarrow>
   matchConstraints_loop cs rest (length pre) (int (longestMatchingPrefix pre cs))
     = int (longestMatchingPrefix (pre @ rest) cs)"
proof (induction rest arbitrary: pre)
  case Nil
  then show ?case by simp
next
  case (Cons t rest)
  consider (hit) "matchTier t cs = 1" | (stop) "matchTier t cs = - 1" | (skip) "matchTier t cs = 0"
    using matchTier_range [of t cs] by blast
  then show ?case
  proof cases
    case hit
    have "list_all (\<lambda>t. matchTier t cs \<noteq> - 1) (pre @ [t])" using Cons.prems hit by simp
    from Cons.IH [OF this] show ?thesis
      using hit lmp_hit [OF hit Cons.prems] by (simp add: Let_def add.commute)
  next
    case stop
    then show ?thesis by (simp add: Let_def lmp_stop)
  next
    case skip
    have "list_all (\<lambda>t. matchTier t cs \<noteq> - 1) (pre @ [t])" using Cons.prems skip by simp
    from Cons.IH [OF this] show ?thesis
      using skip lmp_skip [of t cs pre] by (simp add: Let_def)
  qed
qed

lemma lmp_Nil: "longestMatchingPrefix [] cs = 0"
  by (simp add: longestMatchingPrefix_def okPrefix_def)

lemma matchConstraints_lmp:
  "matchConstraints loc cs = int (longestMatchingPrefix (Tiers loc) cs)"
  using matchConstraints_loop_lmp [of cs "[]" "Tiers loc"]
  by (simp add: matchConstraints_def lmp_Nil)

lemma Min_insert_min:
  fixes S :: "int set"
  assumes "finite S"
  shows "Min (insert (min a b) S) = Min (insert b (insert a S))"
proof (cases "S = {}")
  case True
  then show ?thesis by (simp add: min.commute)
next
  case False
  with assms show ?thesis by (simp add: min.assoc min.commute min.left_commute)
qed

lemma if_less_min: "(if a < b then a else b) = min a (b::int)"
  by auto

lemma minCount_loop_Min:
  "minCount_loop loc rcs m = Min (insert m (set (map (matchConstraints loc) rcs)))"
proof (induction rcs arbitrary: m)
  case Nil
  then show ?case by simp
next
  case (Cons rc rcs)
  show ?case
    using Min_insert_min [of "set (map (matchConstraints loc) rcs)" "matchConstraints loc rc" m]
    by (simp add: Let_def if_less_min Cons.IH)
qed

lemma matchConstraints_bounds:
  "0 \<le> matchConstraints loc cs \<and> matchConstraints loc cs \<le> int (length (Tiers loc))"
  using longestMatchingPrefix_le [of "Tiers loc" cs] by (simp add: matchConstraints_lmp)

lemma minCount_loop_bounds:
  assumes "rcs \<noteq> []"
  shows "0 \<le> minCount_loop loc rcs MaxInt \<and> minCount_loop loc rcs MaxInt \<le> int (length (Tiers loc))"
proof -
  let ?S = "insert MaxInt (set (map (matchConstraints loc) rcs))"
  have fin: "finite ?S" by simp
  have "\<forall>x\<in>?S. 0 \<le> x" using matchConstraints_bounds by (auto simp: MaxInt_def)
  then have lo: "0 \<le> Min ?S" using fin by (simp add: MaxInt_def)
  obtain rc where rc: "rc \<in> set rcs" using assms by (cases rcs) auto
  then have "matchConstraints loc rc \<in> ?S" by simp
  then have "Min ?S \<le> matchConstraints loc rc" using fin by (intro Min_le) auto
  with matchConstraints_bounds [of loc rc] have "Min ?S \<le> int (length (Tiers loc))" by linarith
  with lo show ?thesis by (simp add: minCount_loop_Min)
qed

lemma localityMatchScore_defined:
  assumes "Tiers loc \<noteq> []"
  shows "\<exists>s. localityMatchScore zone loc = Some s \<and> 0 \<le> s \<and> s \<le> 1"
proof -
  let ?t = "real (length (Tiers loc))"
  have t: "0 < ?t" using assms by simp
  define cs where "cs = (if ReplicaConstraints zone = [] then 0
      else real_of_int (minCount_loop loc (ReplicaConstraints zone) MaxInt) / ?t)"
  have cs: "0 \<le> cs \<and> cs \<le> 1"
  proof (cases "ReplicaConstraints zone = []")
    case True then show ?thesis by (simp add: cs_def)
  next
    case False
    from minCount_loop_bounds [OF this, of loc]
    have "0 \<le> real_of_int (minCount_loop loc (ReplicaConstraints zone) MaxInt)"
      and "real_of_int (minCount_loop loc (ReplicaConstraints zone) MaxInt) \<le> ?t"
      by (simp, metis of_int_le_iff of_int_of_nat_eq)
    with t False show ?thesis by (simp add: cs_def)
  qed
  show ?thesis
  proof (cases "LeasePreferences zone")
    case Nil
    with cs t show ?thesis
      by (auto simp: localityMatchScore_def float64_div_def cs_def Let_def)
  next
    case (Cons lp lps)
    define ls where "ls = real_of_int (matchConstraints loc lp) / ?t"
    have "0 \<le> real_of_int (matchConstraints loc lp)" and "real_of_int (matchConstraints loc lp) \<le> ?t"
      using matchConstraints_bounds [of loc lp] by (simp, metis of_int_le_iff of_int_of_nat_eq)
    with t have ls: "0 \<le> ls \<and> ls \<le> 1" by (simp add: ls_def)
    have "localityMatchScore zone loc = Some ((cs * 2 + ls) / 3)"
      using Cons t by (auto simp: localityMatchScore_def float64_div_def cs_def ls_def Let_def)
    moreover have "0 \<le> (cs * 2 + ls) / 3 \<and> (cs * 2 + ls) / 3 \<le> 1" using cs ls by auto
    ultimately show ?thesis by blast
  qed
qed





section \<open>Properties of the cost model\<close>

lemma cpu_nonneg: "0 \<le> cpuCostFactor"
  by (simp add: cpuCostFactor_def)

lemma rowCountOf_withRowCount: "rowCountOf (withRowCount n e) = n"
  by (cases e) (simp_all add: rowCountOf_def withRowCount_def)

lemma Relational_withRowCount:
  "Relational (withRowCount n e) = (Relational e)\<lparr>Stats := (Stats (Relational e))\<lparr>RowCount := n\<rparr>\<rparr>"
  by (cases e) (simp_all add: withRowCount_def)

lemma rowSortCost_loop_ge: "0 \<le> c \<Longrightarrow> cost \<le> rowSortCost_loop n c cost"
proof (induction n arbitrary: c cost)
  case 0
  then show ?case by simp
next
  case (Suc n)
  have "0 \<le> c * (1 / 10)" using Suc.prems by simp
  from Suc.IH [OF this, of "cost + c"] Suc.prems show ?case by simp
qed

lemma rowSortCost_nonneg: "0 \<le> rowSortCost k"
  using rowSortCost_loop_ge [of cpuCostFactor cpuCostFactor k]
  by (simp add: rowSortCost_def cpuCostFactor_def)

lemma rowScanCost_nonneg: "0 \<le> rowScanCost c t i k"
proof (cases "Tiers (locality c) = []")
  case True
  then show ?thesis by (simp add: rowScanCost_def Let_def cpuCostFactor_def)
next
  case False
  from localityMatchScore_defined [OF this, of "IndexZone (TableIndex (mem c) t i)"]
  obtain s where s: "localityMatchScore (IndexZone (TableIndex (mem c) t i)) (locality c) = Some s"
    and "0 \<le> s" and "s \<le> 1" by blast
  then have "0 \<le> cpuCostFactor + latencyCostFactor * (1 - s)"
    by (simp add: cpuCostFactor_def latencyCostFactor_def)
  with False s show ?thesis by (simp add: rowScanCost_def Let_def)
qed

lemma rowlog_mono:
  fixes r r' a b :: real
  assumes a: "0 \<le> a" and b: "0 \<le> b" and le: "r \<le> r'"
  shows "r * (a + (if r > 1 then b * log 2 r else 0)) \<le> r' * (a + (if r' > 1 then b * log 2 r' else 0))"
proof (cases "r' > 1")
  case False
  with le have "\<not> r > 1" by simp
  with False show ?thesis using a le by (simp add: mult_right_mono)
next
  case True
  then have l': "0 < log 2 r'" by simp
  show ?thesis
  proof (cases "r > 1")
    case False
    have "r * a \<le> r' * a" using a le by (simp add: mult_right_mono)
    also have "\<dots> \<le> r' * (a + b * log 2 r')"
      using True b l' by (simp add: mult_left_mono)
    finally show ?thesis using True False by simp
  next
    case r: True
    then have "log 2 r \<le> log 2 r'" using le by simp
    then have "a + b * log 2 r \<le> a + b * log 2 r'" using b by (simp add: mult_left_mono)
    moreover have "0 \<le> a + b * log 2 r" using a b r by simp
    ultimately have "r * (a + b * log 2 r) \<le> r' * (a + b * log 2 r')"
      using le r by (intro mult_mono) auto
    then show ?thesis using True r by simp
  qed
qed

lemma computeSortCost_mono:
  assumes "rowCountOf e \<le> rowCountOf e'"
  shows "computeSortCost c e required \<le> computeSortCost c e' required"
proof -
  let ?p = "rowSortCost (length (Columns (Ordering required)))"
  have eq: "\<And>x. computeSortCost c x required
      = rowCountOf x * (?p + (if rowCountOf x > 1 then ?p * log 2 (rowCountOf x) else 0))"
    by (simp add: computeSortCost_def Let_def algebra_simps)
  show ?thesis unfolding eq using rowSortCost_nonneg assms by (intro rowlog_mono) auto
qed

lemma computeScanCost_mono:
  assumes "RowCount (Stats rel) \<le> RowCount (Stats rel')"
  shows "computeScanCost X c scan rel required \<le> computeScanCost X c scan rel' required"
proof (cases "ForceIndex (Scan_Flags scan) \<and> Flags_Index (Scan_Flags scan) \<noteq> Scan_Index scan")
  case True
  then show ?thesis by (simp add: computeScanCost_def)
next
  case False
  let ?P = "rowScanCost c (Scan_Table scan) (Scan_Index scan) (Len (Scan_Cols scan))"
  let ?b = "if ScanIsReverse X scan (Ordering required) then cpuCostFactor else 0"
  let ?k = "case Scan_Constraint scan of None \<Rightarrow> cpuCostFactor
               | Some con \<Rightarrow> (if IsUnconstrained con then cpuCostFactor else 0)"
  have eq: "\<And>x. computeScanCost X c scan x required
      = RowCount (Stats x) * ((seqIOCostFactor + ?P)
          + (if RowCount (Stats x) > 1 then ?b * log 2 (RowCount (Stats x)) else 0)) + ?k"
    using False by (auto simp: computeScanCost_def Let_def algebra_simps)
  have "0 \<le> seqIOCostFactor + ?P" using rowScanCost_nonneg [of c] by (simp add: seqIOCostFactor_def)
  moreover have "0 \<le> ?b" by (simp add: cpuCostFactor_def)
  ultimately show ?thesis unfolding eq using assms
    by (intro add_right_mono rowlog_mono)
qed

lemma computeHashJoinCost_mono:
  assumes "rowCountOf l \<le> rowCountOf l'" "rowCountOf r \<le> rowCountOf r'"
    "RowCount (Stats rel) \<le> RowCount (Stats rel')"
  shows "computeHashJoinCost l r p rel \<le> computeHashJoinCost l' r' p rel'"
  using assms by (auto simp: computeHashJoinCost_def Let_def intro!: add_mono mult_right_mono mult_left_mono cpu_nonneg)

lemma computeMergeJoinCost_mono:
  assumes "rowCountOf l \<le> rowCountOf l'" "rowCountOf r \<le> rowCountOf r'"
    "RowCount (Stats rel) \<le> RowCount (Stats rel')"
  shows "computeMergeJoinCost l r rel \<le> computeMergeJoinCost l' r' rel'"
  using assms by (auto simp: computeMergeJoinCost_def Let_def intro!: add_mono mult_right_mono mult_left_mono cpu_nonneg)

lemma computeSetCost_mono:
  assumes "rowCountOf l \<le> rowCountOf l'" "rowCountOf r \<le> rowCountOf r'"
    "RowCount (Stats rel) \<le> RowCount (Stats rel')"
  shows "computeSetCost op l r rel \<le> computeSetCost op l' r' rel'"
  using assms by (auto simp: computeSetCost_def Let_def intro!: add_mono mult_right_mono mult_left_mono cpu_nonneg)

lemma computeProjectCost_mono:
  assumes "RowCount (Stats rel) \<le> RowCount (Stats rel')"
  shows "computeProjectCost ps rel \<le> computeProjectCost ps rel'"
  using assms
  by (auto simp: computeProjectCost_def Let_def cpuCostFactor_def intro!: add_mono mult_right_mono)

lemma computeIndexJoinCost_mono:
  assumes "rowCountOf i \<le> rowCountOf i'"
  shows "computeIndexJoinCost c i p \<le> computeIndexJoinCost c i' p"
  using assms rowScanCost_nonneg [of c "IndexJoin_Table p" 0 "Len (IndexJoin_Cols p)"]
  by (auto simp: computeIndexJoinCost_def Let_def cpuCostFactor_def randIOCostFactor_def
      intro!: mult_right_mono)

lemma computeLookupJoinCost_mono:
  assumes "rowCountOf i \<le> rowCountOf i'" "OutputCols (Relational i) = OutputCols (Relational i')"
    "RowCount (Stats rel) \<le> RowCount (Stats rel')"
  shows "computeLookupJoinCost c i on p rel \<le> computeLookupJoinCost c i' on p rel'"
proof -
  let ?n = "Len (Difference (LookupJoin_Cols p) (OutputCols (Relational i')))"
  let ?q = "lookupJoinRetrieveRowCost + rowScanCost c (LookupJoin_Table p) (LookupJoin_Index p) ?n
            + cpuCostFactor * real (length on)"
  have q: "0 \<le> ?q"
    using rowScanCost_nonneg [of c "LookupJoin_Table p" "LookupJoin_Index p" ?n]
    by (simp add: lookupJoinRetrieveRowCost_def seqIOCostFactor_def cpuCostFactor_def)
  have "rowCountOf i * randIOCostFactor \<le> rowCountOf i' * randIOCostFactor"
    using assms(1) by (simp add: randIOCostFactor_def)
  moreover have "RowCount (Stats rel) * ?q \<le> RowCount (Stats rel') * ?q"
    using assms(3) q by (rule mult_right_mono)
  ultimately show ?thesis
    using assms(2) by (simp add: computeLookupJoinCost_def Let_def)
qed

lemma computeZigzagJoinCost_mono:
  assumes "RowCount (Stats rel) \<le> RowCount (Stats rel')"
  shows "computeZigzagJoinCost c p rel \<le> computeZigzagJoinCost c p rel'"
proof -
  have "\<And>a b. 0 \<le> 2 * (cpuCostFactor + seqIOCostFactor) + (rowScanCost c (LeftTable p) (LeftIndex p) a
      + rowScanCost c (RightTable p) (RightIndex p) b)"
    using rowScanCost_nonneg [of c] by (simp add: cpuCostFactor_def seqIOCostFactor_def add_nonneg_nonneg)
  then show ?thesis using assms
    by (simp add: computeZigzagJoinCost_def Let_def mult_right_mono)
qed

lemma computeGroupingCost_mono:
  assumes "rowCountOf i \<le> rowCountOf i'" "RowCount (Stats rel) \<le> RowCount (Stats rel')"
    and n: "length (StreamingGroupingColOrdering X p (Ordering required)) \<le> Len (GroupingCols p)"
  shows "computeGroupingCost X i aggs p rel required \<le> computeGroupingCost X i' aggs p rel' required"
proof -
  let ?g = "Len (GroupingCols p)"
  let ?n = "length (StreamingGroupingColOrdering X p (Ordering required))"
  have a: "RowCount (Stats rel) * cpuCostFactor \<le> RowCount (Stats rel') * cpuCostFactor"
    using assms(2) cpu_nonneg by (rule mult_right_mono)
  have b: "rowCountOf i * real (length aggs + ?g) * cpuCostFactor
         \<le> rowCountOf i' * real (length aggs + ?g) * cpuCostFactor"
    using assms(1) cpu_nonneg by (intro mult_right_mono) auto
  show ?thesis
  proof (cases "?g > 0")
    case False
    with a b show ?thesis by (simp add: computeGroupingCost_def Let_def)
  next
    case True
    then have "real ?n / real ?g \<le> 1" using n by simp
    then have f: "0 \<le> 1 - real ?n / real ?g" by simp
    have "rowCountOf i * cpuCostFactor \<le> rowCountOf i' * cpuCostFactor"
      using assms(1) cpu_nonneg by (rule mult_right_mono)
    then have "rowCountOf i * cpuCostFactor * (1 - real ?n / real ?g)
             \<le> rowCountOf i' * cpuCostFactor * (1 - real ?n / real ?g)"
      using f by (rule mult_right_mono)
    with a b True show ?thesis
      unfolding computeGroupingCost_def Let_def by (simp only: if_True)
  qed
qed

lemma linear_mono: "(a::real) \<le> b \<Longrightarrow> a * cpuCostFactor \<le> b * cpuCostFactor"
  by (simp add: mult_right_mono cpu_nonneg)

lemma ComputeCost_switch_mono:
  assumes "\<forall>p ord. length (StreamingGroupingColOrdering X p ord) \<le> Len (GroupingCols p)"
    and "n \<le> n'" "l \<le> l'" "r \<le> r'"
  shows "ComputeCost_switch X c (withRowCounts n l r e) required
       \<le> ComputeCost_switch X c (withRowCounts n' l' r' e) required"
proof (cases e)
  case (SortExpr i rel)
  then show ?thesis using assms
    by (simp add: withRowCounts_def withRowCount_def computeSortCost_mono rowCountOf_def)
next
  case (ScanExpr p rel)
  then show ?thesis using assms
    by (simp add: withRowCounts_def withRowCount_def computeScanCost_mono)
next
  case (JoinExpr op a b on p rel)
  then show ?thesis using assms
    by (simp add: withRowCounts_def withRowCount_def [of _ "JoinExpr op a b on p rel"]
        computeHashJoinCost_mono rowCountOf_withRowCount)
next
  case (MergeJoinExpr a b rel)
  then show ?thesis using assms
    by (simp add: withRowCounts_def withRowCount_def [of _ "MergeJoinExpr a b rel"]
        computeMergeJoinCost_mono rowCountOf_withRowCount)
next
  case (SetExpr op a b rel)
  then show ?thesis using assms
    by (simp add: withRowCounts_def withRowCount_def [of _ "SetExpr op a b rel"]
        computeSetCost_mono rowCountOf_withRowCount)
next
  case (ProjectExpr i ps pt rel)
  then show ?thesis using assms
    by (simp add: withRowCounts_def withRowCount_def [of _ "ProjectExpr i ps pt rel"]
        computeProjectCost_mono)
next
  case (IndexJoinExpr i p rel)
  then show ?thesis using assms
    by (simp add: withRowCounts_def withRowCount_def [of _ "IndexJoinExpr i p rel"]
        computeIndexJoinCost_mono rowCountOf_withRowCount)
next
  case (LookupJoinExpr i on p rel)
  then show ?thesis using assms
    by (simp add: withRowCounts_def withRowCount_def [of _ "LookupJoinExpr i on p rel"]
        computeLookupJoinCost_mono rowCountOf_withRowCount Relational_withRowCount)
next
  case (ZigzagJoinExpr p rel)
  then show ?thesis using assms
    by (simp add: withRowCounts_def withRowCount_def computeZigzagJoinCost_mono)
next
  case (GroupingExpr op i aggs p rel)
  then show ?thesis using assms
    by (simp add: withRowCounts_def withRowCount_def [of _ "GroupingExpr op i aggs p rel"]
        computeGroupingCost_mono rowCountOf_withRowCount)
next
  case (SelectExpr i fs rel)
  then show ?thesis using assms
    by (simp add: withRowCounts_def withRowCount_def [of _ "SelectExpr i fs rel"]
        computeSelectCost_def rowCountOf_withRowCount linear_mono)
qed (use assms in \<open>simp_all add: withRowCounts_def withRowCount_def computeVirtualScanCost_def
      computeValuesCost_def computeLimitCost_def computeOffsetCost_def computeOrdinalityCost_def
      computeProjectSetCost_def linear_mono\<close>)

lemma rowScanCost_perturbation:
  "rowScanCost (c\<lparr>perturbation := p\<rparr>) t i k = rowScanCost c t i k"
  by (simp add: rowScanCost_def Let_def)

lemma ComputeCost_switch_perturbation:
  "ComputeCost_switch X (c\<lparr>perturbation := p\<rparr>) e required = ComputeCost_switch X c e required"
  by (cases e)
     (simp_all add: computeSortCost_def computeScanCost_def computeIndexJoinCost_def
        computeLookupJoinCost_def computeZigzagJoinCost_def rowScanCost_perturbation)

text \<open>
  Claim C6.  With perturbation disabled, and every other statistic, property and private
  field of the candidate held equal, \<open>ComputeCost\<close> is monotone non-decreasing in the
  row-count estimates it reads: that of the candidate itself (\<open>n\<close>), of its first or only
  input (\<open>l\<close>) and of its second input (\<open>r\<close>).  If the candidate with the larger estimates
  is given a cost, the candidate with the smaller ones is given a cost that is not larger.
  The number of grouping columns that \<open>ordering.StreamingGroupingColOrdering\<close> reports as
  ordered is taken to be at most the number of grouping columns.
\<close>

theorem ComputeCost_monotone:
  assumes "perturbation c = 0"
    and "\<forall>p ord. length (StreamingGroupingColOrdering X p ord) \<le> Len (GroupingCols p)"
    and "n \<le> n'" and "l \<le> l'" and "r \<le> r'"
    and "ComputeCost X c (withRowCounts n' l' r' e) required rnd' = Inr k'"
  shows "\<exists>k. ComputeCost X c (withRowCounts n l r e) required rnd = Inr k \<and> k \<le> k'"
proof -
  let ?lo = "ComputeCost_switch X c (withRowCounts n l r e) required + cpuCostFactor"
  let ?hi = "ComputeCost_switch X c (withRowCounts n' l' r' e) required + cpuCostFactor"
  have le: "?lo \<le> ?hi"
    using ComputeCost_switch_mono [OF assms(2-5), of c e required] by simp
  have hi: "Cost_Less ?hi (MaxCost X) \<and> k' = ?hi"
    using assms(1,6) by (auto simp: ComputeCost_def Let_def split: if_splits)
  then have "Cost_Less ?lo (MaxCost X)" using le by (simp add: Cost_Less_def)
  then have "ComputeCost X c (withRowCounts n l r e) required rnd = Inr ?lo"
    using assms(1) by (simp add: ComputeCost_def Let_def)
  with le hi show ?thesis by simp
qed

theorem ComputeCost_monotone_witness:
  "\<exists>k. ComputeCost exampleExternals (exampleCoster 0) (withRowCounts 1 10 0 exampleGroupBy)
          exampleRequired 0 = Inr k \<and> k \<le> 63 / 100"
proof -
  have p: "perturbation (exampleCoster 0) = 0" by (simp add: exampleCoster_def)
  have s: "\<forall>p ord. length (StreamingGroupingColOrdering exampleExternals p ord) \<le> Len (GroupingCols p)"
    by (simp add: exampleExternals_def)
  have hi: "ComputeCost exampleExternals (exampleCoster 0) (withRowCounts 2 20 0 exampleGroupBy)
          exampleRequired 0 = Inr (63 / 100)"
    by (simp add: ComputeCost_def Let_def exampleGroupBy_def withRowCounts_def withRowCount_def
        computeGroupingCost_def exampleExternals_def exampleCoster_def exampleRelational_def
        rowCountOf_def Len_def FastIntSet_Len_def cpuCostFactor_def Cost_Less_def)
  show ?thesis
    using ComputeCost_monotone [OF p s, of 1 2 10 20 0 0 exampleGroupBy exampleRequired 0 "63 / 100" 0] hi
    by simp
qed

text \<open>
  Claim C5.  A scan whose flags force an index other than the one the scan uses never gets
  a cost below \<open>hugeCost\<close>, whatever the perturbation, the random draw and the row-count
  estimate; and as long as \<open>hugeCost\<close> plus the setup cost is below \<open>memo.MaxCost\<close> the
  call returns, with exactly that cost.
\<close>

theorem ComputeCost_forced_index:
  assumes "ForceIndex (Scan_Flags scan)"
    and "Flags_Index (Scan_Flags scan) \<noteq> Scan_Index scan"
  shows "(\<forall>cost. ComputeCost X c (ScanExpr scan rel) required rnd = Inr cost \<longrightarrow> hugeCost \<le> cost) \<and>
         (hugeCost + cpuCostFactor < MaxCost X \<longrightarrow>
            ComputeCost X c (ScanExpr scan rel) required rnd = Inr (hugeCost + cpuCostFactor))"
  using assms
  by (auto simp: ComputeCost_def Let_def computeScanCost_def Cost_Less_def cpuCostFactor_def
      split: if_splits)

theorem ComputeCost_forced_index_witness:
  "ComputeCost exampleExternals (exampleCoster (1 / 2)) exampleForcedScan exampleRequired (1 / 4)
     = Inr (hugeCost + cpuCostFactor)"
proof -
  let ?scan = "\<lparr>Scan_Table = 1, Scan_Index = 0, Scan_Cols = ColSet [1, 2],
               Scan_Constraint = None,
               Scan_Flags = \<lparr>ForceIndex = True, Flags_Index = 1\<rparr>\<rparr>"
  have a: "ForceIndex (Scan_Flags ?scan)" by simp
  have b: "Flags_Index (Scan_Flags ?scan) \<noteq> Scan_Index ?scan" by simp
  have m: "hugeCost + cpuCostFactor < MaxCost exampleExternals"
    by (simp add: hugeCost_def cpuCostFactor_def exampleExternals_def)
  show ?thesis
    using ComputeCost_forced_index [OF a b, of exampleExternals "exampleCoster (1 / 2)"
        "exampleRelational 1000" exampleRequired "1 / 4"] m
    by (simp add: exampleForcedScan_def)
qed

text \<open>
  Claim C10.  When the cost after the per-operator formula and the setup cost is at or
  above \<open>hugeCost\<close>, the perturbation is skipped: two calls that differ only in the
  perturbation fraction and in the random draw have the same outcome, and a returned cost
  is the unperturbed one.
\<close>

theorem ComputeCost_sentinel_unperturbed:
  assumes "hugeCost \<le> ComputeCost_switch X c e required + cpuCostFactor"
  shows "ComputeCost X (c\<lparr>perturbation := p1\<rparr>) e required rnd1
       = ComputeCost X (c\<lparr>perturbation := p2\<rparr>) e required rnd2 \<and>
         (\<forall>k. ComputeCost X (c\<lparr>perturbation := p1\<rparr>) e required rnd1 = Inr k \<longrightarrow>
              k = ComputeCost_switch X c e required + cpuCostFactor)"
  using assms by (auto simp: ComputeCost_def Let_def ComputeCost_switch_perturbation split: if_splits)

theorem ComputeCost_sentinel_unperturbed_witness:
  "ComputeCost exampleExternals (exampleCoster (1 / 2)) exampleForcedScan exampleRequired (1 / 4)
     = ComputeCost exampleExternals (exampleCoster (3 / 2)) exampleForcedScan exampleRequired (3 / 4)"
proof -
  have h: "hugeCost \<le> ComputeCost_switch exampleExternals (exampleCoster 0) exampleForcedScan
             exampleRequired + cpuCostFactor"
    by (simp add: exampleForcedScan_def computeScanCost_def cpuCostFactor_def)
  have c: "\<And>p. (exampleCoster 0)\<lparr>perturbation := p\<rparr> = exampleCoster p"
    by (simp add: exampleCoster_def)
  show ?thesis
    using ComputeCost_sentinel_unperturbed [OF h, of "1 / 2" "1 / 4" "3 / 2" "3 / 4"]
    by (simp add: c)
qed




section \<open>Properties of constant inlining\<close>

lemma sequence_sum_map_Inr:
  "(\<forall>x\<in>set es. f x = Inr (g x)) \<Longrightarrow> sequence_sum (map f es) = Inr (map g es)"
  by (induction es) auto

lemma sequence_sum_map_Inl:
  "sequence_sum (map f es) = Inl err \<Longrightarrow> \<exists>x\<in>set es. f x = Inl err"
  by (induction es) (auto split: sum.splits)

lemma sequence_sum_map_fails:
  "\<exists>x\<in>set es. \<exists>err. f x = Inl err \<Longrightarrow> \<exists>err. sequence_sum (map f es) = Inl err"
proof (induction es)
  case Nil
  then show ?case by simp
next
  case (Cons a es)
  show ?case
  proof (cases "f a")
    case (Inl err)
    then show ?thesis by simp
  next
    case (Inr v)
    with Cons.prems have "\<exists>x\<in>set es. \<exists>err. f x = Inl err" by auto
    from Cons.IH [OF this] obtain err where "sequence_sum (map f es) = Inl err" by blast
    with Inr show ?thesis by simp
  qed
qed

lemma inlineConstants_ok:
  "(\<forall>col\<in>set (constRefs constCols e). \<exists>d. extractColumn input col = Inr d) \<Longrightarrow>
   inlineConstants input constCols e = Inr (substConstants (definingExpr input) constCols e)"
proof (induction e)
  case (OpExpr op es)
  have "\<forall>x\<in>set es. inlineConstants input constCols x
          = Inr (substConstants (definingExpr input) constCols x)"
    using OpExpr by auto
  then have "sequence_sum (map (inlineConstants input constCols) es)
      = Inr (map (substConstants (definingExpr input) constCols) es)"
    by (rule sequence_sum_map_Inr)
  then show ?case by simp
qed (auto simp: definingExpr_def)

lemma inlineConstants_error:
  "inlineConstants input constCols e = Inl err \<Longrightarrow>
   \<exists>col\<in>set (constRefs constCols e). extractColumn input col = Inl err"
proof (induction e)
  case (OpExpr op es)
  from OpExpr.prems have "sequence_sum (map (inlineConstants input constCols) es) = Inl err"
    by (auto split: sum.splits)
  then obtain x where x: "x \<in> set es" "inlineConstants input constCols x = Inl err"
    using sequence_sum_map_Inl by blast
  with OpExpr.IH obtain col where "col \<in> set (constRefs constCols x)"
    "extractColumn input col = Inl err" by blast
  with x(1) show ?case by auto
qed (auto split: if_splits)

lemma inlineConstants_fails:
  "\<exists>col\<in>set (constRefs constCols e). \<exists>err. extractColumn input col = Inl err \<Longrightarrow>
   \<exists>err. inlineConstants input constCols e = Inl err"
proof (induction e)
  case (OpExpr op es)
  then obtain x where x: "x \<in> set es"
    "\<exists>col\<in>set (constRefs constCols x). \<exists>err. extractColumn input col = Inl err" by auto
  with OpExpr.IH have "\<exists>err. inlineConstants input constCols x = Inl err" by blast
  with x(1) have "\<exists>err. sequence_sum (map (inlineConstants input constCols) es) = Inl err"
    by (intro sequence_sum_map_fails) blast
  then show ?case by auto
qed (auto split: if_splits)

lemma evalExpr_substConstants:
  "(\<forall>col\<in>set (constRefs constCols e). row col = evalExpr opsem leaf row (def col)) \<Longrightarrow>
   evalExpr opsem leaf row (substConstants def constCols e) = evalExpr opsem leaf row e"
proof (induction e)
  case (OpExpr op es)
  have h: "map (evalExpr opsem leaf row \<circ> substConstants def constCols) es = map (evalExpr opsem leaf row) es"
    using OpExpr by (intro map_cong) auto
  show ?case by (simp only: substConstants.simps evalExpr.simps map_map h)
qed auto

lemma extractColumn_projections_find:
  "extractColumn_projections ps col = map_option Element (find (\<lambda>item. Col item = col) ps)"
  by (induction ps) auto

lemma extractColumn_Project:
  "extractColumn (ProjectExpr i ps pt r) col =
     (case find (\<lambda>item. Col item = col) ps of
        Some item \<Rightarrow> Inr (Element item)
      | None \<Rightarrow> Inl (AssertionFailed ''could not find column to extract''))"
  by (simp add: extractColumn_def extractColumn_projections_find split: option.splits)

lemma extractColumn_values_map_of:
  "length elems \<le> length vcols \<Longrightarrow>
   extractColumn_values elems vcols col = Inr (map_of (zip vcols elems) col)"
proof (induction elems arbitrary: vcols)
  case Nil
  then show ?case by simp
next
  case (Cons scalar elems)
  then show ?case by (cases vcols) auto
qed

lemma extractColumn_Values:
  "length elems \<le> length vcols \<Longrightarrow>
   extractColumn (ValuesExpr [OpExpr TupleOp elems] vcols r) col =
     (case map_of (zip vcols elems) col of
        Some e \<Rightarrow> Inr e
      | None \<Rightarrow> Inl (AssertionFailed ''could not find column to extract''))"
  by (simp add: extractColumn_def extractColumn_values_map_of split: option.splits)

text \<open>
  Claim C4.  \<open>inlineConstants\<close> replaces every variable that refers to a column of
  \<open>constCols\<close> by the expression \<open>extractColumn\<close> finds for that column in the input, and
  leaves every other sub-expression as it is, provided each such column is found.  If one
  of the referenced columns is not found, the call panics with the error of
  \<open>extractColumn\<close>; for a \<open>Project\<close> input, and for a \<open>Values\<close> input with one tuple row that
  has a column for each element, \<open>extractColumn\<close> returns the first entry for the column and
  otherwise fails with the assertion "could not find column to extract".  On every row in
  which each inlined column holds the value of its defining expression, the rewritten
  expression has the value of the original one, whatever the operators mean.
\<close>

theorem inlineConstants_spec:
  "((\<forall>col\<in>set (constRefs constCols e). \<exists>d. extractColumn input col = Inr d) \<longrightarrow>
      inlineConstants input constCols e = Inr (substConstants (definingExpr input) constCols e)) \<and>
   ((\<exists>col\<in>set (constRefs constCols e). \<exists>err. extractColumn input col = Inl err) \<longrightarrow>
      (\<exists>err. inlineConstants input constCols e = Inl err \<and>
         (\<exists>col\<in>set (constRefs constCols e). extractColumn input col = Inl err))) \<and>
   (\<forall>i ps pt r col. input = ProjectExpr i ps pt r \<longrightarrow>
      extractColumn input col =
        (case find (\<lambda>item. Col item = col) ps of
           Some item \<Rightarrow> Inr (Element item)
         | None \<Rightarrow> Inl (AssertionFailed ''could not find column to extract''))) \<and>
   (\<forall>elems vcols r col. input = ValuesExpr [OpExpr TupleOp elems] vcols r \<and>
      length elems \<le> length vcols \<longrightarrow>
      extractColumn input col =
        (case map_of (zip vcols elems) col of
           Some e \<Rightarrow> Inr e
         | None \<Rightarrow> Inl (AssertionFailed ''could not find column to extract''))) \<and>
   (\<forall>e'. inlineConstants input constCols e = Inr e' \<and>
      (\<forall>col\<in>set (constRefs constCols e). row col = evalExpr opsem leaf row (definingExpr input col)) \<longrightarrow>
      evalExpr opsem leaf row e' = evalExpr opsem leaf row e)"
proof (intro conjI impI allI)
  assume "\<forall>col\<in>set (constRefs constCols e). \<exists>d. extractColumn input col = Inr d"
  then show "inlineConstants input constCols e = Inr (substConstants (definingExpr input) constCols e)"
    by (rule inlineConstants_ok)
next
  assume "\<exists>col\<in>set (constRefs constCols e). \<exists>err. extractColumn input col = Inl err"
  then obtain err where "inlineConstants input constCols e = Inl err"
    using inlineConstants_fails by blast
  then show "\<exists>err. inlineConstants input constCols e = Inl err \<and>
         (\<exists>col\<in>set (constRefs constCols e). extractColumn input col = Inl err)"
    using inlineConstants_error by blast
next
  fix i ps pt r col assume "input = ProjectExpr i ps pt r"
  then show "extractColumn input col =
        (case find (\<lambda>item. Col item = col) ps of
           Some item \<Rightarrow> Inr (Element item)
         | None \<Rightarrow> Inl (AssertionFailed ''could not find column to extract''))"
    by (simp add: extractColumn_Project)
next
  fix elems vcols r col
  assume "input = ValuesExpr [OpExpr TupleOp elems] vcols r \<and> length elems \<le> length vcols"
  then show "extractColumn input col =
        (case map_of (zip vcols elems) col of
           Some e \<Rightarrow> Inr e
         | None \<Rightarrow> Inl (AssertionFailed ''could not find column to extract''))"
    by (simp add: extractColumn_Values)
next
  fix e'
  assume a: "inlineConstants input constCols e = Inr e' \<and>
      (\<forall>col\<in>set (constRefs constCols e). row col = evalExpr opsem leaf row (definingExpr input col))"
  have "\<forall>col\<in>set (constRefs constCols e). \<exists>d. extractColumn input col = Inr d"
  proof (rule ccontr)
    assume "\<not> (\<forall>col\<in>set (constRefs constCols e). \<exists>d. extractColumn input col = Inr d)"
    then have "\<exists>col\<in>set (constRefs constCols e). \<exists>err. extractColumn input col = Inl err"
      by (metis sum.exhaust)
    then have "\<exists>err. inlineConstants input constCols e = Inl err" by (rule inlineConstants_fails)
    with a show False by simp
  qed
  then have "e' = substConstants (definingExpr input) constCols e"
    using a inlineConstants_ok by fastforce
  then show "evalExpr opsem leaf row e' = evalExpr opsem leaf row e"
    using a evalExpr_substConstants by blast
qed

theorem inlineConstants_spec_witness:
  "inlineConstants exampleProject (ColSet [2]) exampleFilter
     = Inr (OpExpr EqOp [ConstExpr 5, ConstExpr 5]) \<and>
   (\<exists>err. inlineConstants exampleProject (ColSet [2, 7]) (OpExpr EqOp [VariableExpr 7, ConstExpr 5])
      = Inl err \<and> err = AssertionFailed ''could not find column to extract'') \<and>
   evalExpr (\<lambda>op args. if op = EqOp \<and> args = [5, 5] then 1 else (0::int))
     (\<lambda>e. case e of ConstExpr n \<Rightarrow> n | _ \<Rightarrow> 0) (\<lambda>col. if col = 2 then 5 else 0)
     (OpExpr EqOp [ConstExpr 5, ConstExpr 5])
   = evalExpr (\<lambda>op args. if op = EqOp \<and> args = [5, 5] then 1 else (0::int))
     (\<lambda>e. case e of ConstExpr n \<Rightarrow> n | _ \<Rightarrow> 0) (\<lambda>col. if col = 2 then 5 else 0)
     exampleFilter \<and>
   inlineConstants (ValuesExpr [OpExpr TupleOp [ConstExpr 7]] [4] (exampleRelational 1)) (ColSet [4])
     (VariableExpr 4) = Inr (ConstExpr 7)"
proof -
  let ?opsem = "\<lambda>op args. if op = EqOp \<and> args = [5, 5] then 1 else (0::int)"
  let ?leaf = "\<lambda>e. case e of ConstExpr n \<Rightarrow> n | _ \<Rightarrow> (0::int)"
  let ?row = "\<lambda>col::ColumnID. if col = 2 then 5 else (0::int)"
  let ?bad = "OpExpr EqOp [VariableExpr 7, ConstExpr 5]"
  have x2: "extractColumn exampleProject 2 = Inr (ConstExpr 5)"
    by (simp add: extractColumn_def exampleProject_def)
  have x7: "extractColumn exampleProject 7 = Inl (AssertionFailed ''could not find column to extract'')"
    by (simp add: extractColumn_def exampleProject_def)
  have refs: "constRefs (ColSet [2]) exampleFilter = [2]"
    by (simp add: exampleFilter_def Contains_def)
  have refs': "constRefs (ColSet [2, 7]) ?bad = [7]"
    by (simp add: Contains_def)
  have ok: "\<forall>col\<in>set (constRefs (ColSet [2]) exampleFilter). \<exists>d. extractColumn exampleProject col = Inr d"
    by (simp add: refs x2)
  have subst: "substConstants (definingExpr exampleProject) (ColSet [2]) exampleFilter
      = OpExpr EqOp [ConstExpr 5, ConstExpr 5]"
    by (simp add: exampleFilter_def Contains_def definingExpr_def x2)
  have bad: "\<exists>col\<in>set (constRefs (ColSet [2, 7]) ?bad). \<exists>err. extractColumn exampleProject col = Inl err"
    by (simp add: Contains_def x7)
  have rows: "\<forall>col\<in>set (constRefs (ColSet [2]) exampleFilter).
      ?row col = evalExpr ?opsem ?leaf ?row (definingExpr exampleProject col)"
    by (simp add: refs definingExpr_def x2)
  note good = inlineConstants_spec [where constCols = "ColSet [2]" and e = exampleFilter
      and input = exampleProject and row = ?row and opsem = ?opsem and leaf = ?leaf]
  note fail = inlineConstants_spec [where constCols = "ColSet [2, 7]" and e = ?bad
      and input = exampleProject and row = ?row and opsem = ?opsem and leaf = ?leaf]
  have a: "inlineConstants exampleProject (ColSet [2]) exampleFilter
     = Inr (OpExpr EqOp [ConstExpr 5, ConstExpr 5])"
    using good ok subst by simp
  have b: "\<exists>err. inlineConstants exampleProject (ColSet [2, 7]) ?bad = Inl err \<and>
      err = AssertionFailed ''could not find column to extract''"
    using fail bad by (simp add: Contains_def x7)
  have c: "evalExpr ?opsem ?leaf ?row (OpExpr EqOp [ConstExpr 5, ConstExpr 5])
      = evalExpr ?opsem ?leaf ?row exampleFilter"
    using good a rows by blast
  let ?vx = "ValuesExpr [OpExpr TupleOp [ConstExpr 7]] [4] (exampleRelational 1)"
  note vals = inlineConstants_spec [where constCols = "ColSet [4]" and e = "VariableExpr 4"
      and input = ?vx and row = ?row and opsem = ?opsem and leaf = ?leaf]
  have v: "?vx = ValuesExpr [OpExpr TupleOp [ConstExpr 7]] [4] (exampleRelational 1) \<and>
      length [ConstExpr 7] \<le> length [4::ColumnID]" by simp
  have x4: "extractColumn ?vx 4 = Inr (ConstExpr 7)"
    using vals v by simp
  have d: "inlineConstants ?vx (ColSet [4]) (VariableExpr 4) = Inr (ConstExpr 7)"
    using vals x4 by (simp add: Contains_def definingExpr_def)
  from a b c d show ?thesis by blast
qed

section \<open>Properties of the aggregation builder\<close>

lemmas ex_defs = exampleEnv_def exampleState_def exampleScope_def exampleSum_def exampleColumnID_def
  exampleSumInfo_def exampleStateAfterSum_def exampleStateAfterGroupBy_def
  updScope_def addColumn_def synthesizeColumn_def getCol_def ConstructVariable_def findAggregate_def
  Add_def Let_def

lemma constructGroupBy_loop_total:
  "(\<forall>c\<in>set aggCols. col_scalar c \<noteq> None) \<Longrightarrow>
   \<exists>aggs'. constructGroupBy_loop aggCols aggs colSet = Inr aggs'"
  by (induction aggCols arbitrary: aggs colSet) auto

lemma Empty_iff_Len: "Empty g \<longleftrightarrow> Len g = 0"
  by (simp add: Empty_def Len_def FastIntSet_Empty_def FastIntSet_Len_def)

lemma Empty_iff_Contains: "Empty g \<longleftrightarrow> (\<forall>x. \<not> Contains g x)"
  by (cases g) (auto simp: Empty_def Contains_def FastIntSet_Empty_def FastIntSet_Contains_set
      intro: list.exhaust)

text \<open>
  Claim C1.  Whenever \<open>constructGroupBy\<close> returns, the expression it returns is the one
  \<open>ConstructScalarGroupBy\<close> builds if the grouping column set is empty, and the one
  \<open>ConstructGroupBy\<close> builds if it is not, over the given input, the deduplicated
  aggregations and the private with the given grouping columns.  It returns whenever every
  aggregate column has a scalar.  The set is empty exactly when it has no member, that is,
  when there are zero grouping columns.
\<close>

theorem constructGroupBy_variant:
  "(\<forall>e. constructGroupBy factory input g aggCols ord = Inr e \<longrightarrow>
      (\<exists>aggs. constructGroupBy_loop aggCols [] (ColSet []) = Inr aggs \<and>
         (Empty g \<longrightarrow> e = ConstructScalarGroupBy factory input aggs
            \<lparr>GroupingCols = g, Grouping_Ordering = FromOrderingWithOptCols factory ord g\<rparr>) \<and>
         (\<not> Empty g \<longrightarrow> e = ConstructGroupBy factory input aggs
            \<lparr>GroupingCols = g, Grouping_Ordering = FromOrderingWithOptCols factory ord g\<rparr>))) \<and>
   ((\<forall>c\<in>set aggCols. col_scalar c \<noteq> None) \<longrightarrow>
      (\<exists>e. constructGroupBy factory input g aggCols ord = Inr e)) \<and>
   (Empty g \<longleftrightarrow> Len g = 0) \<and>
   (Empty g \<longleftrightarrow> (\<forall>x. \<not> Contains g x))"
proof (intro conjI allI impI)
  fix e assume "constructGroupBy factory input g aggCols ord = Inr e"
  then show "\<exists>aggs. constructGroupBy_loop aggCols [] (ColSet []) = Inr aggs \<and>
         (Empty g \<longrightarrow> e = ConstructScalarGroupBy factory input aggs
            \<lparr>GroupingCols = g, Grouping_Ordering = FromOrderingWithOptCols factory ord g\<rparr>) \<and>
         (\<not> Empty g \<longrightarrow> e = ConstructGroupBy factory input aggs
            \<lparr>GroupingCols = g, Grouping_Ordering = FromOrderingWithOptCols factory ord g\<rparr>)"
    by (auto simp: constructGroupBy_def Let_def split: sum.splits if_splits)
next
  assume "\<forall>c\<in>set aggCols. col_scalar c \<noteq> None"
  from constructGroupBy_loop_total [OF this, of "[]" "ColSet []"]
  show "\<exists>e. constructGroupBy factory input g aggCols ord = Inr e"
    by (auto simp: constructGroupBy_def Let_def)
qed (simp_all add: Empty_iff_Len Empty_iff_Contains [symmetric])

theorem constructGroupBy_variant_witness:
  "constructGroupBy exampleFactory (VirtualScanExpr (exampleRelational 0)) (ColSet [])
     [\<lparr>col_name = ''count_rows'', col_typ = ''int'', col_id = 3,
       col_scalar = Some (OpExpr (FunctionOp ''count_rows'') []), col_expr = Some ''count(*)''\<rparr>] []
     = Inr (GroupingExpr ScalarGroupByOp (VirtualScanExpr (exampleRelational 0))
              [\<lparr>Agg = OpExpr (FunctionOp ''count_rows'') [], AggCol = 3\<rparr>]
              \<lparr>GroupingCols = ColSet [], Grouping_Ordering = \<lparr>Optional = ColSet [], Columns = []\<rparr>\<rparr>
              (exampleRelational 1)) \<and>
   constructGroupBy exampleFactory (VirtualScanExpr (exampleRelational 0)) (ColSet [2])
     [\<lparr>col_name = ''count_rows'', col_typ = ''int'', col_id = 3,
       col_scalar = Some (OpExpr (FunctionOp ''count_rows'') []), col_expr = Some ''count(*)''\<rparr>] []
     = Inr (GroupingExpr GroupByOp (VirtualScanExpr (exampleRelational 0))
              [\<lparr>Agg = OpExpr (FunctionOp ''count_rows'') [], AggCol = 3\<rparr>]
              \<lparr>GroupingCols = ColSet [2], Grouping_Ordering = \<lparr>Optional = ColSet [2], Columns = []\<rparr>\<rparr>
              (exampleRelational 1))"
proof -
  let ?input = "VirtualScanExpr (exampleRelational 0)"
  let ?cols = "[\<lparr>col_name = ''count_rows'', col_typ = ''int'', col_id = 3,
       col_scalar = Some (OpExpr (FunctionOp ''count_rows'') []), col_expr = Some ''count(*)''\<rparr>]"
  let ?aggs = "[\<lparr>Agg = OpExpr (FunctionOp ''count_rows'') [], AggCol = 3\<rparr>]"
  have h: "\<forall>c\<in>set ?cols. col_scalar c \<noteq> None" by simp
  have l: "constructGroupBy_loop ?cols [] (ColSet []) = Inr ?aggs"
    by (simp add: Contains_def)
  have e0: "Empty (ColSet [])" and e2: "\<not> Empty (ColSet [2])"
    by (simp_all add: Empty_def FastIntSet_Empty_def)
  note t0 = constructGroupBy_variant [of exampleFactory ?input "ColSet []" ?cols "[]"]
  note t2 = constructGroupBy_variant [of exampleFactory ?input "ColSet [2]" ?cols "[]"]
  from t0 h obtain r0 where r0: "constructGroupBy exampleFactory ?input (ColSet []) ?cols [] = Inr r0"
    by blast
  with t0 l e0 have "r0 = ConstructScalarGroupBy exampleFactory ?input ?aggs
      \<lparr>GroupingCols = ColSet [], Grouping_Ordering = FromOrderingWithOptCols exampleFactory [] (ColSet [])\<rparr>"
    by auto
  with r0 have a: "constructGroupBy exampleFactory ?input (ColSet []) ?cols []
     = Inr (GroupingExpr ScalarGroupByOp ?input ?aggs
              \<lparr>GroupingCols = ColSet [], Grouping_Ordering = \<lparr>Optional = ColSet [], Columns = []\<rparr>\<rparr>
              (exampleRelational 1))"
    by (simp add: exampleFactory_def)
  from t2 h obtain r2 where r2: "constructGroupBy exampleFactory ?input (ColSet [2]) ?cols [] = Inr r2"
    by blast
  with t2 l e2 have "r2 = ConstructGroupBy exampleFactory ?input ?aggs
      \<lparr>GroupingCols = ColSet [2], Grouping_Ordering = FromOrderingWithOptCols exampleFactory [] (ColSet [2])\<rparr>"
    by auto
  with r2 have b: "constructGroupBy exampleFactory ?input (ColSet [2]) ?cols []
     = Inr (GroupingExpr GroupByOp ?input ?aggs
              \<lparr>GroupingCols = ColSet [2], Grouping_Ordering = \<lparr>Optional = ColSet [2], Columns = []\<rparr>\<rparr>
              (exampleRelational 1))"
    by (simp add: exampleFactory_def)
  from a b show ?thesis by (rule conjI)
qed






lemma dedup_found:
  assumes "findAggregate (scopes st1 aggOut) info = Some col"
    and "before \<le> length (scope_cols (scopes st1 tempScope))"
  shows "buildAggregateFunction_dedup E f def tempScope before info aggIn aggOut st1
     = Inr (info\<lparr>agg_col := Some col\<rparr>,
            updScope tempScope (\<lambda>s. s\<lparr>scope_cols := take before (scope_cols s)\<rparr>) st1)"
  using assms by (simp add: buildAggregateFunction_dedup_def)

lemma dedup_new:
  assumes "findAggregate (scopes st1 aggOut) info = None"
    and "before \<le> length (scope_cols (scopes st1 tempScope))"
  shows "\<exists>st'. buildAggregateFunction_dedup E f def tempScope before info aggIn aggOut st1
       = Inr (info\<lparr>agg_col := Some (aggOut, length (scope_cols (scopes st1 aggOut)))\<rparr>, st') \<and>
     groupby_aggs (scope_groupby (scopes st' aggOut))
       = groupby_aggs (scope_groupby (scopes st1 aggOut))
         @ [info\<lparr>agg_col := Some (aggOut, length (scope_cols (scopes st1 aggOut)))\<rparr>] \<and>
     aux st' = snd (MetadataAddColumn E (Name def) (ResolvedType E f) (aux st1)) \<and>
     subquery st' = subquery st1 \<and>
     (aggOut \<noteq> tempScope \<and> aggOut \<noteq> aggIn \<longrightarrow>
        scope_cols (scopes st' aggOut) = scope_cols (scopes st1 aggOut) @
          [\<lparr>col_name = Name def, col_typ = ResolvedType E f,
            col_id = fst (MetadataAddColumn E (Name def) (ResolvedType E f) (aux st1)),
            col_scalar = None, col_expr = Some f\<rparr>] \<and>
        (aggIn \<noteq> tempScope \<longrightarrow>
           scope_cols (scopes st' aggIn)
             = scope_cols (scopes st1 aggIn) @ drop before (scope_cols (scopes st1 tempScope)) \<and>
           scope_cols (scopes st' tempScope) = take before (scope_cols (scopes st1 tempScope))) \<and>
        (aggIn = tempScope \<longrightarrow>
           scope_cols (scopes st' tempScope) = scope_cols (scopes st1 tempScope)))"
  using assms
  by (auto simp: buildAggregateFunction_dedup_def synthesizeColumn_def updScope_def Let_def
      split: prod.splits)

text \<open>
  Claim C3.  Let the arguments and the filter of an aggregate call be built and let
  \<open>endAggFunc\<close> have returned the grouping scopes.  If the aggregate list of \<open>aggOutScope\<close>
  holds an entry with identical definition, arguments, distinct flag and filter, the call
  returns the info with the output column of that entry, the aggregate list is unchanged,
  the columns added to \<open>tempScope\<close> during the call are discarded, and no other scope
  changes.  Otherwise a new output column is synthesized at the end of \<open>aggOutScope\<close> with
  a new column id, the info with that column is appended to the aggregate list, and the
  temporary columns are moved to \<open>aggInScope\<close> (or stay, when \<open>tempScope\<close> is
  \<open>aggInScope\<close>).
\<close>

theorem buildAggregateFunction_dedup_spec:
  assumes "buildAggregateFunction_args E f def inScope st
             = Inr (tempScope, before, subq, info, aggIn, aggOut, st1)"
    and "before \<le> length (scope_cols (scopes st1 tempScope))"
  shows "(\<forall>col. findAggregate (scopes st1 aggOut) info = Some col \<longrightarrow>
           (\<exists>st'. buildAggregateFunction E f def inScope st = Inr (info\<lparr>agg_col := Some col\<rparr>, st') \<and>
              groupby_aggs (scope_groupby (scopes st' aggOut))
                = groupby_aggs (scope_groupby (scopes st1 aggOut)) \<and>
              scope_cols (scopes st' tempScope) = take before (scope_cols (scopes st1 tempScope)) \<and>
              (\<forall>a. a \<noteq> tempScope \<longrightarrow> scopes st' a = scopes st1 a) \<and>
              aux st' = aux st1)) \<and>
         (findAggregate (scopes st1 aggOut) info = None \<longrightarrow>
           (\<exists>st' info'. buildAggregateFunction E f def inScope st = Inr (info', st') \<and>
              info' = info\<lparr>agg_col := Some (aggOut, length (scope_cols (scopes st1 aggOut)))\<rparr> \<and>
              groupby_aggs (scope_groupby (scopes st' aggOut))
                = groupby_aggs (scope_groupby (scopes st1 aggOut)) @ [info'] \<and>
              aux st' = snd (MetadataAddColumn E (Name def) (ResolvedType E f) (aux st1)) \<and>
              (aggOut \<noteq> tempScope \<and> aggOut \<noteq> aggIn \<longrightarrow>
                 scope_cols (scopes st' aggOut) = scope_cols (scopes st1 aggOut) @
                   [\<lparr>col_name = Name def, col_typ = ResolvedType E f,
                     col_id = fst (MetadataAddColumn E (Name def) (ResolvedType E f) (aux st1)),
                     col_scalar = None, col_expr = Some f\<rparr>] \<and>
                 (aggIn \<noteq> tempScope \<longrightarrow>
                    scope_cols (scopes st' aggIn)
                      = scope_cols (scopes st1 aggIn) @ drop before (scope_cols (scopes st1 tempScope)) \<and>
                    scope_cols (scopes st' tempScope) = take before (scope_cols (scopes st1 tempScope))) \<and>
                 (aggIn = tempScope \<longrightarrow>
                    scope_cols (scopes st' tempScope) = scope_cols (scopes st1 tempScope)))))"
proof (intro conjI allI impI)
  fix col assume "findAggregate (scopes st1 aggOut) info = Some col"
  from dedup_found [OF this assms(2), of E f "def" aggIn] assms(1)
  show "\<exists>st'. buildAggregateFunction E f def inScope st = Inr (info\<lparr>agg_col := Some col\<rparr>, st') \<and>
              groupby_aggs (scope_groupby (scopes st' aggOut))
                = groupby_aggs (scope_groupby (scopes st1 aggOut)) \<and>
              scope_cols (scopes st' tempScope) = take before (scope_cols (scopes st1 tempScope)) \<and>
              (\<forall>a. a \<noteq> tempScope \<longrightarrow> scopes st' a = scopes st1 a) \<and>
              aux st' = aux st1"
    by (simp add: buildAggregateFunction_def updScope_def)
next
  assume "findAggregate (scopes st1 aggOut) info = None"
  from dedup_new [OF this assms(2), of E f "def" aggIn]
  obtain st' where d: "buildAggregateFunction_dedup E f def tempScope before info aggIn aggOut st1
       = Inr (info\<lparr>agg_col := Some (aggOut, length (scope_cols (scopes st1 aggOut)))\<rparr>, st')"
    and rest: "groupby_aggs (scope_groupby (scopes st' aggOut))
       = groupby_aggs (scope_groupby (scopes st1 aggOut))
         @ [info\<lparr>agg_col := Some (aggOut, length (scope_cols (scopes st1 aggOut)))\<rparr>]"
     "aux st' = snd (MetadataAddColumn E (Name def) (ResolvedType E f) (aux st1))"
     "aggOut \<noteq> tempScope \<and> aggOut \<noteq> aggIn \<longrightarrow>
        scope_cols (scopes st' aggOut) = scope_cols (scopes st1 aggOut) @
          [\<lparr>col_name = Name def, col_typ = ResolvedType E f,
            col_id = fst (MetadataAddColumn E (Name def) (ResolvedType E f) (aux st1)),
            col_scalar = None, col_expr = Some f\<rparr>] \<and>
        (aggIn \<noteq> tempScope \<longrightarrow>
           scope_cols (scopes st' aggIn)
             = scope_cols (scopes st1 aggIn) @ drop before (scope_cols (scopes st1 tempScope)) \<and>
           scope_cols (scopes st' tempScope) = take before (scope_cols (scopes st1 tempScope))) \<and>
        (aggIn = tempScope \<longrightarrow>
           scope_cols (scopes st' tempScope) = scope_cols (scopes st1 tempScope))"
    by blast
  have "buildAggregateFunction E f def inScope st
      = Inr (info\<lparr>agg_col := Some (aggOut, length (scope_cols (scopes st1 aggOut)))\<rparr>,
             st'\<lparr>subquery := subq\<rparr>)"
    using assms(1) d by (simp add: buildAggregateFunction_def)
  with rest show "\<exists>st' info'. buildAggregateFunction E f def inScope st = Inr (info', st') \<and>
              info' = info\<lparr>agg_col := Some (aggOut, length (scope_cols (scopes st1 aggOut)))\<rparr> \<and>
              groupby_aggs (scope_groupby (scopes st' aggOut))
                = groupby_aggs (scope_groupby (scopes st1 aggOut)) @ [info'] \<and>
              aux st' = snd (MetadataAddColumn E (Name def) (ResolvedType E f) (aux st1)) \<and>
              (aggOut \<noteq> tempScope \<and> aggOut \<noteq> aggIn \<longrightarrow>
                 scope_cols (scopes st' aggOut) = scope_cols (scopes st1 aggOut) @
                   [\<lparr>col_name = Name def, col_typ = ResolvedType E f,
                     col_id = fst (MetadataAddColumn E (Name def) (ResolvedType E f) (aux st1)),
                     col_scalar = None, col_expr = Some f\<rparr>] \<and>
                 (aggIn \<noteq> tempScope \<longrightarrow>
                    scope_cols (scopes st' aggIn)
                      = scope_cols (scopes st1 aggIn) @ drop before (scope_cols (scopes st1 tempScope)) \<and>
                    scope_cols (scopes st' tempScope) = take before (scope_cols (scopes st1 tempScope))) \<and>
                 (aggIn = tempScope \<longrightarrow>
                    scope_cols (scopes st' tempScope) = scope_cols (scopes st1 tempScope)))"
    by simp
qed

theorem buildAggregateFunction_dedup_spec_witness:
  "buildAggregateFunction exampleEnv ''sum(x)'' exampleSum 0 exampleState
     = Inr (exampleSumInfo, exampleStateAfterSum) \<and>
   (\<exists>st'. buildAggregateFunction exampleEnv ''sum(x)'' exampleSum 0 exampleStateAfterSum
        = Inr (exampleSumInfo, st') \<and>
      groupby_aggs (scope_groupby (scopes st' 2)) = [exampleSumInfo] \<and>
      scope_cols (scopes st' 1) = scope_cols (scopes exampleStateAfterSum 1) \<and>
      scopes st' 2 = scopes exampleStateAfterSum 2)"
proof -
  let ?info0 = "exampleSumInfo\<lparr>agg_col := None\<rparr>"
  let ?mid1 = "updScope 1 (\<lambda>s. s\<lparr>scope_cols := scope_cols s @
               [\<lparr>col_name = [], col_typ = ''int'', col_id = 1, col_scalar = None,
                 col_expr = Some ''x''\<rparr>]\<rparr>) exampleState"
  let ?mid2 = "updScope 1 (\<lambda>s. s\<lparr>scope_cols := scope_cols s @
               [\<lparr>col_name = [], col_typ = ''int'', col_id = 1, col_scalar = None,
                 col_expr = Some ''x''\<rparr>]\<rparr>) exampleStateAfterSum"
  have args1: "buildAggregateFunction_args exampleEnv ''sum(x)'' exampleSum 0 exampleState
     = Inr (1, 0, None, ?info0, 1, 2, ?mid1)"
    by (simp add: buildAggregateFunction_args_def buildAggArg_def ex_defs fun_eq_iff)
  have args2: "buildAggregateFunction_args exampleEnv ''sum(x)'' exampleSum 0 exampleStateAfterSum
     = Inr (1, 1, None, ?info0, 1, 2, ?mid2)"
    by (simp add: buildAggregateFunction_args_def buildAggArg_def ex_defs fun_eq_iff)
  have len1: "0 \<le> length (scope_cols (scopes ?mid1 1))" by simp
  have len2: "1 \<le> length (scope_cols (scopes ?mid2 1))" by (simp add: ex_defs)
  have none: "findAggregate (scopes ?mid1 2) ?info0 = None" by (simp add: ex_defs)
  have found: "findAggregate (scopes ?mid2 2) ?info0 = Some (2, 0)" by (simp add: ex_defs)
  note t1 = buildAggregateFunction_dedup_spec [OF args1 len1]
  note t2 = buildAggregateFunction_dedup_spec [OF args2 len2]
  from t1 none obtain s1 i1 where
    r1: "buildAggregateFunction exampleEnv ''sum(x)'' exampleSum 0 exampleState = Inr (i1, s1)"
    and i1: "i1 = ?info0\<lparr>agg_col := Some (2, length (scope_cols (scopes ?mid1 2)))\<rparr>"
    by blast
  have "i1 = exampleSumInfo" unfolding i1 by (simp add: ex_defs)
  moreover have "buildAggregateFunction exampleEnv ''sum(x)'' exampleSum 0 exampleState
     = Inr (exampleSumInfo, exampleStateAfterSum)"
    by (simp add: buildAggregateFunction_def buildAggregateFunction_args_def
      buildAggregateFunction_dedup_def buildAggArg_def ex_defs fun_eq_iff)
  ultimately have a: "buildAggregateFunction exampleEnv ''sum(x)'' exampleSum 0 exampleState
     = Inr (exampleSumInfo, exampleStateAfterSum)" by simp
  from t2 found obtain s2 where
    r2: "buildAggregateFunction exampleEnv ''sum(x)'' exampleSum 0 exampleStateAfterSum
       = Inr (?info0\<lparr>agg_col := Some (2, 0)\<rparr>, s2)"
    and g2: "groupby_aggs (scope_groupby (scopes s2 2)) = groupby_aggs (scope_groupby (scopes ?mid2 2))"
    and c2: "scope_cols (scopes s2 1) = take 1 (scope_cols (scopes ?mid2 1))"
    and o2: "\<forall>a. a \<noteq> 1 \<longrightarrow> scopes s2 a = scopes ?mid2 a"
    by blast
  have i2: "?info0\<lparr>agg_col := Some (2, 0)\<rparr> = exampleSumInfo" by (simp add: ex_defs)
  have "groupby_aggs (scope_groupby (scopes s2 2)) = [exampleSumInfo]"
    using g2 by (simp add: ex_defs)
  moreover have "scope_cols (scopes s2 1) = scope_cols (scopes exampleStateAfterSum 1)"
    using c2 by (simp add: ex_defs)
  moreover have "scopes s2 2 = scopes exampleStateAfterSum 2"
    using o2 by (simp add: ex_defs)
  ultimately have b: "\<exists>st'. buildAggregateFunction exampleEnv ''sum(x)'' exampleSum 0 exampleStateAfterSum
        = Inr (exampleSumInfo, st') \<and>
      groupby_aggs (scope_groupby (scopes st' 2)) = [exampleSumInfo] \<and>
      scope_cols (scopes st' 1) = scope_cols (scopes exampleStateAfterSum 1) \<and>
      scopes st' 2 = scopes exampleStateAfterSum 2"
    using r2 i2 by auto
  from a b show ?thesis by (rule conjI)
qed

end
